theory Spec2Isabelle
  imports Complex_Main "HOL-Library.Multiset"
begin

section \<open>JavaScript numbers\<close>

text \<open>
  A JavaScript number is an IEEE double. The model idealises the finite doubles as the
  reals (no rounding, no overflow, no signed zero) and keeps the three special values,
  which \<open>parseFloat\<close> and the arithmetic operators can produce.
\<close>

datatype number = Num real | PInfinity | NInfinity | NaN

text \<open>Unary minus, \<open>-value\<close>.\<close>

fun js_neg :: "number \<Rightarrow> number" where
  "js_neg (Num r) = Num (- r)"
| "js_neg PInfinity = NInfinity"
| "js_neg NInfinity = PInfinity"
| "js_neg NaN = NaN"

text \<open>Multiplication, \<open>a * b\<close>: an infinity times zero is \<open>NaN\<close>.\<close>

fun js_sign_inf :: "real \<Rightarrow> number" where
  "js_sign_inf r = (if r = 0 then NaN else if 0 < r then PInfinity else NInfinity)"

fun js_times :: "number \<Rightarrow> number \<Rightarrow> number" where
  "js_times NaN _ = NaN"
| "js_times _ NaN = NaN"
| "js_times (Num a) (Num b) = Num (a * b)"
| "js_times (Num a) PInfinity = js_sign_inf a"
| "js_times (Num a) NInfinity = js_sign_inf (- a)"
| "js_times PInfinity (Num b) = js_sign_inf b"
| "js_times NInfinity (Num b) = js_sign_inf (- b)"
| "js_times PInfinity PInfinity = PInfinity"
| "js_times PInfinity NInfinity = NInfinity"
| "js_times NInfinity PInfinity = NInfinity"
| "js_times NInfinity NInfinity = PInfinity"

text \<open>Subtraction, \<open>a - b\<close>: the difference of equal infinities is \<open>NaN\<close>.\<close>

fun js_minus :: "number \<Rightarrow> number \<Rightarrow> number" where
  "js_minus NaN _ = NaN"
| "js_minus _ NaN = NaN"
| "js_minus (Num a) (Num b) = Num (a - b)"
| "js_minus (Num a) PInfinity = NInfinity"
| "js_minus (Num a) NInfinity = PInfinity"
| "js_minus PInfinity PInfinity = NaN"
| "js_minus PInfinity _ = PInfinity"
| "js_minus NInfinity NInfinity = NaN"
| "js_minus NInfinity _ = NInfinity"

text \<open>\<open>Math.exp\<close>.\<close>

fun Math_exp :: "number \<Rightarrow> number" where
  "Math_exp (Num r) = Num (exp r)"
| "Math_exp PInfinity = PInfinity"
| "Math_exp NInfinity = Num 0"
| "Math_exp NaN = NaN"

section \<open>Errors\<close>

text \<open>
  The exceptions the code can meet: \<open>new Error(message)\<close> thrown by the application,
  and the exceptions of the built-ins it calls (\<open>JSON.parse\<close>, a property read or a method
  call on a value that has none, \<open>atob\<close>, \<open>ethers.toUtf8String\<close>).
\<close>

datatype js_error =
    Error string
  | SyntaxError
  | TypeError
  | InvalidCharacterError
  | Utf8Error

section \<open>Base64: \<open>btoa\<close> and \<open>atob\<close>\<close>

text \<open>
  Strings are lists of 8-bit characters, the range \<open>btoa\<close> accepts and \<open>atob\<close> returns.
  \<open>b64_char\<close> is the base64 alphabet \<open>A-Z a-z 0-9 + /\<close> and \<open>b64_index\<close> its inverse.
\<close>

definition b64_char :: "nat \<Rightarrow> char" where
  "b64_char i =
     (if i < 26 then char_of (65 + i)
      else if i < 52 then char_of (71 + i)
      else if i < 62 then char_of (i - 4)
      else if i = 62 then CHR ''+''
      else CHR ''/'')"

definition b64_index :: "char \<Rightarrow> nat option" where
  "b64_index c =
     (let n = (of_char c :: nat) in
      if 65 \<le> n \<and> n \<le> 90 then Some (n - 65)
      else if 97 \<le> n \<and> n \<le> 122 then Some (n - 71)
      else if 48 \<le> n \<and> n \<le> 57 then Some (n + 4)
      else if n = 43 then Some 62
      else if n = 47 then Some 63
      else None)"

definition b64_val :: "char \<Rightarrow> nat" where
  "b64_val c = (case b64_index c of Some n \<Rightarrow> n | None \<Rightarrow> 0)"

text \<open>
  \<open>btoa\<close>: three bytes become four characters; a last group of one or two bytes is
  padded with \<open>=\<close>.
\<close>

fun btoa :: "string \<Rightarrow> string" where
  "btoa [] = []"
| "btoa [a] =
     (let x = (of_char a :: nat) in
      [b64_char (x div 4), b64_char ((x mod 4) * 16), CHR ''='', CHR ''=''])"
| "btoa [a, b] =
     (let x = (of_char a :: nat); y = (of_char b :: nat) in
      [b64_char (x div 4), b64_char ((x mod 4) * 16 + y div 16),
       b64_char ((y mod 16) * 4), CHR ''=''])"
| "btoa (a # b # c # rest) =
     (let x = (of_char a :: nat); y = (of_char b :: nat); z = (of_char c :: nat) in
      [b64_char (x div 4), b64_char ((x mod 4) * 16 + y div 16),
       b64_char ((y mod 16) * 4 + z div 64), b64_char (z mod 64)]) @ btoa rest"

text \<open>
  \<open>atob\<close> is the forgiving base64 decoder of the HTML standard: ASCII whitespace is
  removed; when the length is a multiple of four, one or two trailing \<open>=\<close> are removed;
  a length of one modulo four or a character outside the alphabet is an
  \<open>InvalidCharacterError\<close>; the bits of a last incomplete group are discarded.
\<close>

definition is_ascii_whitespace :: "char \<Rightarrow> bool" where
  "is_ascii_whitespace c = ((of_char c :: nat) \<in> {9, 10, 12, 13, 32})"

definition strip_padding :: "string \<Rightarrow> string" where
  "strip_padding d =
     (case rev d of
        p # q # r \<Rightarrow>
          (if p = CHR ''='' \<and> q = CHR ''='' then rev r
           else if p = CHR ''='' then rev (q # r)
           else d)
      | [p] \<Rightarrow> (if p = CHR ''='' then [] else d)
      | [] \<Rightarrow> d)"

fun b64_decode :: "nat list \<Rightarrow> string" where
  "b64_decode (s1 # s2 # s3 # s4 # rest) =
     [char_of (s1 * 4 + s2 div 16), char_of ((s2 mod 16) * 16 + s3 div 4),
      char_of ((s3 mod 4) * 64 + s4)] @ b64_decode rest"
| "b64_decode [s1, s2, s3] =
     [char_of (s1 * 4 + s2 div 16), char_of ((s2 mod 16) * 16 + s3 div 4)]"
| "b64_decode [s1, s2] = [char_of (s1 * 4 + s2 div 16)]"
| "b64_decode _ = []"

definition atob :: "string \<Rightarrow> js_error + string" where
  "atob s =
     (let d0 = filter (\<lambda>c. \<not> is_ascii_whitespace c) s;
          d = (if length d0 mod 4 = 0 then strip_padding d0 else d0)
      in if length d mod 4 = 1 then Inl InvalidCharacterError
         else if list_ex (\<lambda>c. b64_index c = None) d then Inl InvalidCharacterError
         else Inr (b64_decode (map b64_val d)))"

section \<open>The built-ins taken as parameters\<close>

text \<open>
  The textual form of a number (\<open>Number.prototype.toString\<close>, \<open>parseFloat\<close>, and the
  conversion of a string to a number that the arithmetic operators apply), the JSON codec,
  the UTF-8 codec of \<open>ethers\<close>, and the order in which \<open>Array.prototype.sort\<close> leaves
  an array whose comparator is not consistent, are functions of the platform, not of this
  repository: the program is modelled over an environment that provides them.
\<close>

datatype jsval =
    JUndefined
  | JNull
  | JBool bool
  | JNumber number
  | JString string
  | JArray "jsval list"
  | JObject "(string \<times> jsval) list"

text \<open>
  The store holds byte strings; a byte is an 8-bit character. An object is the list of
  its own properties in creation order, with distinct names.
\<close>

type_synonym bytes = "char list"

text \<open>
  \<open>GWASRecord\<close>: the fields hold whatever \<open>JSON.parse\<close> gave, since the interface is
  not checked at run time.
\<close>

record GWASRecord =
  id_field :: jsval
  encryptedData :: jsval
  timestamp :: jsval
  institution :: jsval
  phenotype :: jsval
  status :: jsval
  snpCount :: jsval

text \<open>
  \<open>Array_sort\<close> takes the records, each with the number its timestamp converts to.
\<close>

record js_env =
  Number_toString :: "number \<Rightarrow> string"
  parseFloat :: "string \<Rightarrow> number"
  StringToNumber :: "string \<Rightarrow> number"
  JSON_parse :: "string \<Rightarrow> jsval option"
  JSON_stringify :: "jsval \<Rightarrow> string"
  toUtf8String :: "bytes \<Rightarrow> string option"
  toUtf8Bytes :: "string \<Rightarrow> bytes"
  Array_sort :: "(GWASRecord \<times> number) list \<Rightarrow> GWASRecord list"

text \<open>
  \<open>JSON.parse\<close> throws a \<open>SyntaxError\<close> where \<open>JSON_parse\<close> is \<open>None\<close>, and
  \<open>ethers.toUtf8String\<close> throws where \<open>toUtf8String\<close> is \<open>None\<close>.
\<close>

definition parse_json :: "js_env \<Rightarrow> bytes \<Rightarrow> js_error + jsval" where
  "parse_json env b =
     (case toUtf8String env b of
        None \<Rightarrow> Inl Utf8Error
      | Some s \<Rightarrow> (case JSON_parse env s of None \<Rightarrow> Inl SyntaxError | Some v \<Rightarrow> Inr v))"

definition encode_json :: "js_env \<Rightarrow> jsval \<Rightarrow> bytes" where
  "encode_json env v = toUtf8Bytes env (JSON_stringify env v)"

section \<open>Coercions of the language\<close>

text \<open>A sequence of conversions: the values, or the first exception.\<close>

fun coerce_all :: "('e + 'a) list \<Rightarrow> 'e + 'a list" where
  "coerce_all [] = Inr []"
| "coerce_all (x # xs) =
     (case x of
        Inl e \<Rightarrow> Inl e
      | Inr v \<Rightarrow> (case coerce_all xs of Inl e \<Rightarrow> Inl e | Inr vs \<Rightarrow> Inr (v # vs)))"

text \<open>
  The string a template literal \<open>`${v}`\<close> inserts for a value. An array is joined with
  commas, \<open>null\<close> and \<open>undefined\<close> elements left empty. An object is asked for its
  \<open>toString\<close> and then its \<open>valueOf\<close>: an object that \<open>JSON.parse\<close> made inherits
  both, and gives \<open>[object Object]\<close>, unless it has a property \<open>toString\<close> of its
  own, which is not a function; then \<open>valueOf\<close> answers with the object itself (or is
  no function either) and the conversion throws a \<open>TypeError\<close>.
\<close>

fun join_comma :: "string list \<Rightarrow> string" where
  "join_comma [] = []"
| "join_comma [s] = s"
| "join_comma (s # t # ss) = s @ '','' @ join_comma (t # ss)"

fun ToString :: "js_env \<Rightarrow> jsval \<Rightarrow> js_error + string" where
  "ToString env JUndefined = Inr ''undefined''"
| "ToString env JNull = Inr ''null''"
| "ToString env (JBool b) = Inr (if b then ''true'' else ''false'')"
| "ToString env (JNumber n) = Inr (Number_toString env n)"
| "ToString env (JString s) = Inr s"
| "ToString env (JArray xs) =
     (case coerce_all
             (map (\<lambda>x. if x = JUndefined \<or> x = JNull then Inr [] else ToString env x) xs) of
        Inl e \<Rightarrow> Inl e
      | Inr ss \<Rightarrow> Inr (join_comma ss))"
| "ToString env (JObject kvs) =
     (if map_of kvs ''toString'' = None then Inr ''[object Object]'' else Inl TypeError)"

text \<open>
  The number the operator \<open>-\<close> takes from an operand. An array or an object is asked
  for its \<open>valueOf\<close>, which answers with the value itself, and then for its string as
  above; the string is converted.
\<close>

fun ToNumber :: "js_env \<Rightarrow> jsval \<Rightarrow> js_error + number" where
  "ToNumber env JUndefined = Inr NaN"
| "ToNumber env JNull = Inr (Num 0)"
| "ToNumber env (JBool b) = Inr (Num (if b then 1 else 0))"
| "ToNumber env (JNumber n) = Inr n"
| "ToNumber env (JString s) = Inr (StringToNumber env s)"
| "ToNumber env (JArray xs) =
     (case ToString env (JArray xs) of
        Inl e \<Rightarrow> Inl e
      | Inr s \<Rightarrow> Inr (StringToNumber env s))"
| "ToNumber env (JObject kvs) =
     (case ToString env (JObject kvs) of
        Inl e \<Rightarrow> Inl e
      | Inr s \<Rightarrow> Inr (StringToNumber env s))"

text \<open>Truthiness, and \<open>a || b\<close>.\<close>

fun truthy :: "jsval \<Rightarrow> bool" where
  "truthy JUndefined = False"
| "truthy JNull = False"
| "truthy (JBool b) = b"
| "truthy (JNumber n) = (n \<noteq> NaN \<and> n \<noteq> Num 0)"
| "truthy (JString s) = (s \<noteq> [])"
| "truthy (JArray xs) = True"
| "truthy (JObject kvs) = True"

definition js_or :: "jsval \<Rightarrow> jsval \<Rightarrow> jsval" where
  "js_or a b = (if truthy a then a else b)"

text \<open>
  A property read \<open>v.name\<close>, for the names this program reads (\<open>data\<close>,
  \<open>timestamp\<close>, \<open>institution\<close>, \<open>phenotype\<close>, \<open>status\<close>, \<open>snpCount\<close>), none of
  which is inherited from a prototype: a \<open>TypeError\<close> on \<open>null\<close> and \<open>undefined\<close>,
  \<open>undefined\<close> where the value has no such property.
\<close>

fun get_prop :: "jsval \<Rightarrow> string \<Rightarrow> js_error + jsval" where
  "get_prop JUndefined name = Inl TypeError"
| "get_prop JNull name = Inl TypeError"
| "get_prop (JObject kvs) name =
     Inr (case map_of kvs name of None \<Rightarrow> JUndefined | Some v \<Rightarrow> v)"
| "get_prop v name = Inr JUndefined"

text \<open>\<open>for (const key of keys)\<close>: arrays and strings are iterable.\<close>

fun js_iterate :: "jsval \<Rightarrow> js_error + jsval list" where
  "js_iterate (JArray xs) = Inr xs"
| "js_iterate (JString s) = Inr (map (\<lambda>c. JString [c]) s)"
| "js_iterate v = Inl TypeError"

text \<open>\<open>keys.push(x)\<close>: only an array has the method.\<close>

fun js_push :: "jsval \<Rightarrow> jsval \<Rightarrow> js_error + jsval" where
  "js_push (JArray xs) x = Inr (JArray (xs @ [x]))"
| "js_push v x = Inl TypeError"

text \<open>
  The object literal \<open>{ ...v, name: x }\<close>: the own enumerable properties of \<open>v\<close>, then
  each named property replaced where it stands or added at the end.
\<close>

fun own_props :: "js_env \<Rightarrow> jsval \<Rightarrow> (string \<times> jsval) list" where
  "own_props env (JObject kvs) = kvs"
| "own_props env (JArray xs) =
     zip (map (\<lambda>i. Number_toString env (Num (real i))) [0..<length xs]) xs"
| "own_props env (JString s) =
     zip (map (\<lambda>i. Number_toString env (Num (real i))) [0..<length s])
       (map (\<lambda>c. JString [c]) s)"
| "own_props env v = []"

definition obj_set :: "string \<Rightarrow> jsval \<Rightarrow> (string \<times> jsval) list \<Rightarrow> (string \<times> jsval) list" where
  "obj_set name x kvs =
     (if map_of kvs name = None then kvs @ [(name, x)]
      else map (\<lambda>(k, v). if k = name then (k, x) else (k, v)) kvs)"

text \<open>\<open>s.trim() !== ''\<close>, on 8-bit characters.\<close>

definition is_js_whitespace :: "char \<Rightarrow> bool" where
  "is_js_whitespace c = ((of_char c :: nat) \<in> {9, 10, 11, 12, 13, 32, 160})"

definition trim_nonempty :: "string \<Rightarrow> bool" where
  "trim_nonempty s = list_ex (\<lambda>c. \<not> is_js_whitespace c) s"

section \<open>The placeholder cipher\<close>

definition FHEEncryptNumber :: "js_env \<Rightarrow> number \<Rightarrow> string" where
  "FHEEncryptNumber env v = ''FHE-'' @ btoa (Number_toString env v)"

definition FHEDecryptNumber :: "js_env \<Rightarrow> string \<Rightarrow> js_error + number" where
  "FHEDecryptNumber env encrypted =
     (if take 4 encrypted = ''FHE-'' then
        (case atob (drop 4 encrypted) of
           Inl e \<Rightarrow> Inl e
         | Inr t \<Rightarrow> Inr (parseFloat env t))
      else Inr (parseFloat env encrypted))"

definition FHEComputeGWAS :: "js_env \<Rightarrow> string \<Rightarrow> js_error + string" where
  "FHEComputeGWAS env encrypted =
     (case FHEDecryptNumber env encrypted of
        Inl e \<Rightarrow> Inl e
      | Inr v \<Rightarrow>
          (let pValue = Math_exp (js_times (js_neg v) (Num (1 / 10)))
           in Inr (FHEEncryptNumber env pValue)))"

section \<open>Application state\<close>

datatype tx_state = TxPending | TxSuccess | TxError

text \<open>
  The message of a transaction status: a fixed text, or a prefix followed by the message
  of the exception caught.
\<close>

datatype tx_message = Text string | Failure string js_error

record TransactionStatus =
  visible :: bool
  tx_status :: tx_state
  message :: tx_message

datatype log_entry = ConsoleError string js_error

text \<open>A call of the store: \<open>getData(key)\<close> or \<open>setData(key, value)\<close>.\<close>

datatype store_call = GetData string | SetData string bytes

record NewRecordData =
  new_phenotype :: string
  new_description :: string
  new_snpCount :: number
  new_effectSize :: number

text \<open>
  Modelled from the spec: the key/value store client of \<open>./contract\<close>, which is not
  among the sources. \<open>getData\<close> reads \<open>store\<close> (empty bytes for an absent key),
  \<open>setData\<close> updates it, \<open>isAvailable()\<close> is \<open>available\<close>;
  \<open>getContractReadOnly()\<close> and \<open>getContractWithSigner()\<close> return a contract or
  \<open>null\<close>. A store call that is rejected or fails in transport is not modelled. The
  calls of \<open>getData\<close> and \<open>setData\<close> are recorded in \<open>calls\<close>, in the order in which
  they are made.

  The rest of the state is what the component keeps: the wallet (\<open>isConnected\<close>,
  \<open>address\<close>), the listed \<open>records\<close>, the \<open>transactionStatus\<close>, the upload form,
  and the alerts and console lines issued so far. The flags that only drive rendering
  (\<open>loading\<close>, \<open>isRefreshing\<close>, \<open>uploading\<close>, the modals) and the timers that hide
  the status are left out.
\<close>

record world =
  isConnected :: bool
  address :: "string option"
  readOnlyContract :: bool
  signerContract :: bool
  available :: bool
  store :: "string \<Rightarrow> bytes"
  records :: "GWASRecord list"
  transactionStatus :: TransactionStatus
  newRecordData :: NewRecordData
  alerts :: "string list"
  console :: "log_entry list"
  calls :: "store_call list"

definition index_key :: string where
  "index_key = ''gwas_record_keys''"

definition record_key :: "string \<Rightarrow> string" where
  "record_key rid = ''gwas_record_'' @ rid"

section \<open>\<open>loadRecords\<close>\<close>

text \<open>The index as \<open>loadRecords\<close> decodes it, with the console lines of the attempt.\<close>

definition load_keys :: "js_env \<Rightarrow> bytes \<Rightarrow> jsval \<times> log_entry list" where
  "load_keys env keysBytes =
     (if length keysBytes > 0 then
        (case toUtf8String env keysBytes of
           None \<Rightarrow> (JArray [], [ConsoleError ''Error parsing record keys:'' Utf8Error])
         | Some keysStr \<Rightarrow>
             (if trim_nonempty keysStr then
                (case JSON_parse env keysStr of
                   None \<Rightarrow> (JArray [], [ConsoleError ''Error parsing record keys:'' SyntaxError])
                 | Some v \<Rightarrow> (v, []))
              else (JArray [], [])))
      else (JArray [], []))"

text \<open>
  The object pushed to the list: reading a property of \<open>null\<close> throws.
\<close>

definition make_record :: "jsval \<Rightarrow> jsval \<Rightarrow> js_error + GWASRecord" where
  "make_record key recordData =
     (case get_prop recordData ''data'' of
        Inl e \<Rightarrow> Inl e
      | Inr d \<Rightarrow>
     (case get_prop recordData ''timestamp'' of
        Inl e \<Rightarrow> Inl e
      | Inr ts \<Rightarrow>
     (case get_prop recordData ''institution'' of
        Inl e \<Rightarrow> Inl e
      | Inr inst \<Rightarrow>
     (case get_prop recordData ''phenotype'' of
        Inl e \<Rightarrow> Inl e
      | Inr ph \<Rightarrow>
     (case get_prop recordData ''status'' of
        Inl e \<Rightarrow> Inl e
      | Inr st \<Rightarrow>
     (case get_prop recordData ''snpCount'' of
        Inl e \<Rightarrow> Inl e
      | Inr sc \<Rightarrow>
          Inr \<lparr> id_field = key, encryptedData = d, timestamp = ts, institution = inst,
                phenotype = ph, status = js_or st (JString ''pending''),
                snpCount = js_or sc (JNumber (Num 0)) \<rparr>))))))"

text \<open>
  One turn of the loop, once the key has its string \<open>s\<close>: \<open>Inr None\<close> when the document
  is empty, the record when it parses and is not \<open>null\<close>, the exception caught by the
  inner handler otherwise.
\<close>

definition load_record :: "js_env \<Rightarrow> (string \<Rightarrow> bytes) \<Rightarrow> jsval \<Rightarrow> string \<Rightarrow>
    js_error + GWASRecord option" where
  "load_record env st key s =
     (let recordBytes = st (record_key s) in
      if length recordBytes > 0 then
        (case parse_json env recordBytes of
           Inl e \<Rightarrow> Inl e
         | Inr recordData \<Rightarrow>
             (case make_record key recordData of Inl e \<Rightarrow> Inl e | Inr r \<Rightarrow> Inr (Some r)))
      else Inr None)"

text \<open>
  The loop over the keys, with the list, the console lines and the store calls so far. A
  key whose conversion to a string throws makes the template literal of the \<open>getData\<close>
  call throw, and the one in the handler that would log it throw again: the exception
  leaves the loop, which is the \<open>Some\<close> of the result.
\<close>

fun load_loop :: "js_env \<Rightarrow> (string \<Rightarrow> bytes) \<Rightarrow> jsval list \<Rightarrow>
    GWASRecord list \<times> log_entry list \<times> store_call list \<Rightarrow>
    js_error option \<times> GWASRecord list \<times> log_entry list \<times> store_call list" where
  "load_loop env st [] acc = (None, acc)"
| "load_loop env st (key # keys) (list, lg, cs) =
     (case ToString env key of
        Inl e \<Rightarrow> (Some e, list, lg, cs)
      | Inr s \<Rightarrow>
          (case load_record env st key s of
             Inl e \<Rightarrow>
               load_loop env st keys
                 (list, lg @ [ConsoleError (''Error parsing record data for '' @ s @ '':'') e],
                  cs @ [GetData (record_key s)])
           | Inr None \<Rightarrow> load_loop env st keys (list, lg, cs @ [GetData (record_key s)])
           | Inr (Some r) \<Rightarrow>
               load_loop env st keys (list @ [r], lg, cs @ [GetData (record_key s)])))"

text \<open>
  \<open>list.sort((a, b) => b.timestamp - a.timestamp)\<close>. With fewer than two records the
  comparator is not called. Otherwise every record is compared at least once, and the
  comparator converts both timestamps: a timestamp whose conversion throws makes the sort
  throw. When every timestamp is a finite number the comparator is consistent, \<open>b\<close> goes
  before \<open>a\<close> when \<open>b.timestamp - a.timestamp\<close> is positive, and the sort, which is
  stable, is the insertion sort below. When some timestamp is \<open>NaN\<close> or infinite the
  comparator is not consistent and the order is the engine's.
\<close>

definition sort_key :: "js_env \<Rightarrow> GWASRecord \<Rightarrow> js_error + number" where
  "sort_key env r = ToNumber env (timestamp r)"

fun is_finite :: "number \<Rightarrow> bool" where
  "is_finite (Num r) = True"
| "is_finite PInfinity = False"
| "is_finite NInfinity = False"
| "is_finite NaN = False"

fun is_positive :: "number \<Rightarrow> bool" where
  "is_positive (Num r) = (0 < r)"
| "is_positive PInfinity = True"
| "is_positive NInfinity = False"
| "is_positive NaN = False"

fun sort_insert :: "GWASRecord \<times> number \<Rightarrow> (GWASRecord \<times> number) list \<Rightarrow>
    (GWASRecord \<times> number) list" where
  "sort_insert a [] = [a]"
| "sort_insert a (b # bs) =
     (if is_positive (js_minus (snd b) (snd a)) then b # sort_insert a bs else a # b # bs)"

definition sort_records :: "js_env \<Rightarrow> GWASRecord list \<Rightarrow> js_error + GWASRecord list" where
  "sort_records env xs =
     (if length xs < 2 then Inr xs
      else
        (case coerce_all (map (sort_key env) xs) of
           Inl e \<Rightarrow> Inl e
         | Inr ns \<Rightarrow>
             Inr (if list_all is_finite ns then map fst (foldr sort_insert (zip xs ns) [])
                  else Array_sort env (zip xs ns))))"

text \<open>
  \<open>loadRecords\<close>. An exception that reaches the outer handler is logged there, and
  \<open>setRecords\<close> is not reached.
\<close>

definition load_failed :: "world \<Rightarrow> js_error \<Rightarrow> world" where
  "load_failed w e = w\<lparr>console := console w @ [ConsoleError ''Error loading records:'' e]\<rparr>"

definition loadRecords :: "js_env \<Rightarrow> world \<Rightarrow> world" where
  "loadRecords env w =
     (if \<not> readOnlyContract w then w
      else if \<not> available w then w
      else
        (let keysBytes = store w index_key;
             (keys, log1) = load_keys env keysBytes;
             w1 = w\<lparr>console := console w @ log1, calls := calls w @ [GetData index_key]\<rparr>
         in case js_iterate keys of
              Inl e \<Rightarrow> load_failed w1 e
            | Inr ks \<Rightarrow>
                (let (err, list, log2, cs) = load_loop env (store w1) ks ([], [], []);
                     w2 = w1\<lparr>console := console w1 @ log2, calls := calls w1 @ cs\<rparr>
                 in case err of
                      Some e \<Rightarrow> load_failed w2 e
                    | None \<Rightarrow>
                        (case sort_records env list of
                           Inl e \<Rightarrow> load_failed w2 e
                         | Inr list' \<Rightarrow> w2\<lparr>records := list'\<rparr>))))"

section \<open>\<open>uploadGWASData\<close>\<close>

text \<open>
  The two readings of \<open>Date.now()\<close> (milliseconds, for the id and for the timestamp) and
  the text of \<open>Math.random().toString(36)\<close> are inputs. \<open>Math.floor(now / 1000)\<close> is
  the integer quotient.
\<close>

definition new_record_id :: "js_env \<Rightarrow> int \<Rightarrow> string \<Rightarrow> string" where
  "new_record_id env now_id rnd =
     ''gwas-'' @ Number_toString env (Num (of_int now_id)) @ ''-'' @ take 4 (drop 2 rnd)"

definition new_record :: "js_env \<Rightarrow> world \<Rightarrow> int \<Rightarrow> jsval" where
  "new_record env w now_ts =
     JObject
       [(''data'', JString (FHEEncryptNumber env (new_effectSize (newRecordData w)))),
        (''timestamp'', JNumber (Num (of_int (now_ts div 1000)))),
        (''institution'', (case address w of None \<Rightarrow> JUndefined | Some a \<Rightarrow> JString a)),
        (''phenotype'', JString (new_phenotype (newRecordData w))),
        (''status'', JString ''pending''),
        (''snpCount'', JNumber (new_snpCount (newRecordData w)))]"

text \<open>The index as \<open>uploadGWASData\<close> decodes it, with the console lines of the attempt.\<close>

definition upload_keys :: "js_env \<Rightarrow> bytes \<Rightarrow> jsval \<times> log_entry list" where
  "upload_keys env keysBytes =
     (if length keysBytes > 0 then
        (case parse_json env keysBytes of
           Inl e \<Rightarrow> (JArray [], [ConsoleError ''Error parsing keys:'' e])
         | Inr v \<Rightarrow> (v, []))
      else (JArray [], []))"

text \<open>
  The \<open>catch\<close> of \<open>uploadGWASData\<close>. No exception of the model carries the text
  \<open>user rejected transaction\<close>, so the message is the second alternative,
  \<open>"Submission failed: " + e.message\<close>.
\<close>

definition upload_failed :: "world \<Rightarrow> js_error \<Rightarrow> world" where
  "upload_failed w e =
     w\<lparr>transactionStatus :=
         \<lparr>visible = True, tx_status = TxError, message = Failure ''Submission failed: '' e\<rparr>\<rparr>"

definition uploadGWASData :: "js_env \<Rightarrow> int \<Rightarrow> int \<Rightarrow> string \<Rightarrow> world \<Rightarrow> world" where
  "uploadGWASData env now_id now_ts rnd w =
     (if \<not> isConnected w then w\<lparr>alerts := alerts w @ [''Please connect wallet first'']\<rparr>
      else
        (let w1 = w\<lparr>transactionStatus :=
                     \<lparr>visible = True, tx_status = TxPending,
                      message = Text ''Encrypting GWAS data with Zama FHE...''\<rparr>\<rparr>
         in if \<not> signerContract w1 then
              upload_failed w1 (Error ''Failed to get contract with signer'')
            else
              (let recordId = new_record_id env now_id rnd;
                   recordData = new_record env w1 now_ts;
                   w2 = w1\<lparr>store := (store w1)(record_key recordId := encode_json env recordData),
                           calls := calls w1 @
                             [SetData (record_key recordId) (encode_json env recordData)]\<rparr>;
                   keysBytes = store w2 index_key;
                   (keys, lg) = upload_keys env keysBytes;
                   w3 = w2\<lparr>console := console w2 @ lg,
                           calls := calls w2 @ [GetData index_key]\<rparr>
               in case js_push keys (JString recordId) of
                    Inl e \<Rightarrow> upload_failed w3 e
                  | Inr keys' \<Rightarrow>
                      (let w4 = w3\<lparr>store := (store w3)(index_key := encode_json env keys'),
                                   calls := calls w3 @
                                     [SetData index_key (encode_json env keys')]\<rparr>;
                           w5 = w4\<lparr>transactionStatus :=
                                    \<lparr>visible = True, tx_status = TxSuccess,
                                     message = Text ''Encrypted GWAS data submitted securely!''\<rparr>\<rparr>
                       in loadRecords env w5))))"

section \<open>\<open>processGWAS\<close>\<close>

text \<open>
  \<open>FHEComputeGWAS(recordData.data)\<close>: the call of \<open>startsWith\<close> is a \<open>TypeError\<close>
  unless the value is a string.
\<close>

definition compute_on :: "js_env \<Rightarrow> jsval \<Rightarrow> js_error + string" where
  "compute_on env d = (case d of JString s \<Rightarrow> FHEComputeGWAS env s | _ \<Rightarrow> Inl TypeError)"

definition updated_record :: "js_env \<Rightarrow> jsval \<Rightarrow> string \<Rightarrow> jsval" where
  "updated_record env recordData processedData =
     JObject (obj_set ''data'' (JString processedData)
               (obj_set ''status'' (JString ''processed'') (own_props env recordData)))"

definition process_failed :: "world \<Rightarrow> js_error \<Rightarrow> world" where
  "process_failed w e =
     w\<lparr>transactionStatus :=
         \<lparr>visible = True, tx_status = TxError, message = Failure ''Processing failed: '' e\<rparr>\<rparr>"

definition processGWAS :: "js_env \<Rightarrow> world \<Rightarrow> string \<Rightarrow> world" where
  "processGWAS env w recordId =
     (if \<not> isConnected w then w\<lparr>alerts := alerts w @ [''Please connect wallet first'']\<rparr>
      else
        (let w1 = w\<lparr>transactionStatus :=
                     \<lparr>visible = True, tx_status = TxPending,
                      message = Text ''Processing encrypted GWAS data with FHE...''\<rparr>\<rparr>
         in if \<not> readOnlyContract w1 then process_failed w1 (Error ''Failed to get contract'')
            else
              (let recordBytes = store w1 (record_key recordId);
                   wr = w1\<lparr>calls := calls w1 @ [GetData (record_key recordId)]\<rparr> in
               if length recordBytes = 0 then process_failed wr (Error ''Record not found'')
               else
                 (case parse_json env recordBytes of
                    Inl e \<Rightarrow> process_failed wr e
                  | Inr recordData \<Rightarrow>
                 (case get_prop recordData ''data'' of
                    Inl e \<Rightarrow> process_failed wr e
                  | Inr d \<Rightarrow>
                 (case compute_on env d of
                    Inl e \<Rightarrow> process_failed wr e
                  | Inr processedData \<Rightarrow>
                      (if \<not> signerContract wr then
                         process_failed wr (Error ''Failed to get contract with signer'')
                       else
                         (let updatedRecord = updated_record env recordData processedData;
                              w2 = wr\<lparr>store := (store wr)(record_key recordId :=
                                                    encode_json env updatedRecord),
                                      calls := calls wr @
                                        [SetData (record_key recordId)
                                           (encode_json env updatedRecord)]\<rparr>;
                              w3 = w2\<lparr>transactionStatus :=
                                       \<lparr>visible = True, tx_status = TxSuccess,
                                        message = Text ''FHE GWAS processing completed!''\<rparr>\<rparr>
                          in loadRecords env w3))))))))"

text \<open>
  The view offers the action on a listed record only to its owner and only while the
  record is pending: \<open>isOwner(record.institution) && record.status === "pending"\<close>,
  with \<open>isOwner\<close> comparing the lower-cased addresses.
\<close>

definition toLowerCase :: "string \<Rightarrow> string" where
  "toLowerCase s =
     map (\<lambda>c. let n = (of_char c :: nat) in
               if (65 \<le> n \<and> n \<le> 90) \<or> (192 \<le> n \<and> n \<le> 222 \<and> n \<noteq> 215)
               then char_of (n + 32) else c) s"

definition isOwner :: "world \<Rightarrow> string \<Rightarrow> bool" where
  "isOwner w recordAddress =
     (case address w of
        None \<Rightarrow> False
      | Some a \<Rightarrow> toLowerCase a = toLowerCase recordAddress)"

section \<open>Notions used to state the properties\<close>

text \<open>The sextets and the padding of \<open>btoa\<close>, apart.\<close>

fun b64_body :: "string \<Rightarrow> nat list" where
  "b64_body [] = []"
| "b64_body [a] = (let x = (of_char a :: nat) in [x div 4, (x mod 4) * 16])"
| "b64_body [a, b] =
     (let x = (of_char a :: nat); y = (of_char b :: nat) in
      [x div 4, (x mod 4) * 16 + y div 16, (y mod 16) * 4])"
| "b64_body (a # b # c # rest) =
     (let x = (of_char a :: nat); y = (of_char b :: nat); z = (of_char c :: nat) in
      [x div 4, (x mod 4) * 16 + y div 16, (y mod 16) * 4 + z div 64, z mod 64])
     @ b64_body rest"

fun b64_pad :: "string \<Rightarrow> string" where
  "b64_pad [] = []"
| "b64_pad [a] = ''==''"
| "b64_pad [a, b] = ''=''"
| "b64_pad (a # b # c # rest) = b64_pad rest"











text \<open>
  What the application writes: nothing, an index (an array), or a document (an object)
  whose status is \<open>pending\<close> or \<open>processed\<close>.
\<close>

definition written_by_app :: "js_env \<Rightarrow> bytes \<Rightarrow> bool" where
  "written_by_app env b =
     (b = [] \<or> (\<exists>ks. b = encode_json env (JArray ks)) \<or>
      (\<exists>kvs. b = encode_json env (JObject kvs) \<and>
         (map_of kvs ''status'' = Some (JString ''pending'') \<or>
          map_of kvs ''status'' = Some (JString ''processed''))))"

text \<open>
  The states reached from an empty store by the three operations, with any change of the
  wallet, the form and the rest of the view in between.
\<close>

inductive reachable :: "js_env \<Rightarrow> world \<Rightarrow> bool" for env :: js_env where
  reach_init: "store w = (\<lambda>k. []) \<Longrightarrow> reachable env w"
| reach_load: "reachable env w \<Longrightarrow> reachable env (loadRecords env w)"
| reach_upload: "reachable env w \<Longrightarrow> reachable env (uploadGWASData env now_id now_ts rnd w)"
| reach_process: "reachable env w \<Longrightarrow> reachable env (processGWAS env w rid)"
| reach_view: "reachable env w \<Longrightarrow> store w' = store w \<Longrightarrow> reachable env w'"

section \<open>A test double of the platform\<close>

text \<open>
  A finite fragment of the built-ins, enough to run the examples: the numbers and the
  JSON texts that occur in them, and byte strings that are their own UTF-8 text. Its sort
  for an inconsistent comparator keeps the order of its input: this is what V8 does on the
  one example that needs it, three records of which the middle one has no timestamp,
  where each comparison V8 makes (a record with its left neighbour) is \<open>NaN\<close>.
\<close>

definition test_toString :: "number \<Rightarrow> string" where
  "test_toString n =
     (case n of
        Num r \<Rightarrow>
          (if r = exp (- 1) then ''0.36787944117144233''
           else if r = 0 then ''0''
           else if r = 10 then ''10''
           else if r = 1700000000000 then ''1700000000000''
           else ''1'')
      | PInfinity \<Rightarrow> ''Infinity''
      | NInfinity \<Rightarrow> ''-Infinity''
      | NaN \<Rightarrow> ''NaN'')"

definition test_parseFloat :: "string \<Rightarrow> number" where
  "test_parseFloat s =
     (if s = ''0.36787944117144233'' then Num (exp (- 1))
      else if s = ''0'' then Num 0
      else if s = ''10'' then Num 10
      else if s = ''1700000000000'' then Num 1700000000000
      else NaN)"

definition doc_pending_text :: string where
  \<open>doc_pending_text =
     ''{"data":"FHE-MTA=","timestamp":100,"institution":"0xAA","phenotype":"height","status":"pending","snpCount":5}''\<close>

definition doc_pending_value :: jsval where
  "doc_pending_value =
     JObject [(''data'', JString ''FHE-MTA=''), (''timestamp'', JNumber (Num 100)),
      (''institution'', JString ''0xAA''), (''phenotype'', JString ''height''),
      (''status'', JString ''pending''), (''snpCount'', JNumber (Num 5))]"

definition doc_processed_text :: string where
  \<open>doc_processed_text =
     ''{"data":"FHE-MC4zNjc4Nzk0NDExNzE0NDIzMw==","timestamp":100,"institution":"0xAA","phenotype":"height","status":"processed","snpCount":5}''\<close>

definition doc_processed_value :: jsval where
  "doc_processed_value =
     JObject [(''data'', JString ''FHE-MC4zNjc4Nzk0NDExNzE0NDIzMw==''), (''timestamp'', JNumber (Num 100)),
      (''institution'', JString ''0xAA''), (''phenotype'', JString ''height''),
      (''status'', JString ''processed''), (''snpCount'', JNumber (Num 5))]"

definition doc_b_text :: string where
  \<open>doc_b_text =
     ''{"data":"FHE-MTA=","timestamp":300,"institution":"0xAA","phenotype":"height","status":"pending","snpCount":5}''\<close>

definition doc_b_value :: jsval where
  "doc_b_value =
     JObject [(''data'', JString ''FHE-MTA=''), (''timestamp'', JNumber (Num 300)),
      (''institution'', JString ''0xAA''), (''phenotype'', JString ''height''),
      (''status'', JString ''pending''), (''snpCount'', JNumber (Num 5))]"

definition doc_c_text :: string where
  \<open>doc_c_text =
     ''{"data":"FHE-MTA=","timestamp":200,"institution":"0xAA","phenotype":"height","status":"pending","snpCount":5}''\<close>

definition doc_c_value :: jsval where
  "doc_c_value =
     JObject [(''data'', JString ''FHE-MTA=''), (''timestamp'', JNumber (Num 200)),
      (''institution'', JString ''0xAA''), (''phenotype'', JString ''height''),
      (''status'', JString ''pending''), (''snpCount'', JNumber (Num 5))]"

definition doc_new_text :: string where
  \<open>doc_new_text =
     ''{"data":"FHE-MA==","timestamp":1700000000,"institution":"0xAA","phenotype":"height","status":"pending","snpCount":5}''\<close>

definition doc_new_value :: jsval where
  "doc_new_value =
     JObject [(''data'', JString ''FHE-MA==''), (''timestamp'', JNumber (Num 1700000000)),
      (''institution'', JString ''0xAA''), (''phenotype'', JString ''height''),
      (''status'', JString ''pending''), (''snpCount'', JNumber (Num 5))]"

definition index_text :: string where
  \<open>index_text = ''["a","b","c","m","x"]''\<close>

definition index_value :: jsval where
  "index_value = JArray [JString ''a'', JString ''b'', JString ''c'', JString ''m'', JString ''x'']"

definition index_new_text :: string where
  \<open>index_new_text = ''["gwas-1700000000000-k3j2"]''\<close>

definition index_new_value :: jsval where
  "index_new_value = JArray [JString ''gwas-1700000000000-k3j2'']"

definition index_appended_text :: string where
  \<open>index_appended_text = ''["a","b","c","m","x","gwas-1700000000000-k3j2"]''\<close>

definition index_appended_value :: jsval where
  "index_appended_value =
     JArray [JString ''a'', JString ''b'', JString ''c'', JString ''m'', JString ''x'',
       JString ''gwas-1700000000000-k3j2'']"

text \<open>
  Values that only an outside hand can have stored: a document whose timestamp is an
  object with a \<open>toString\<close> of its own, an index of two ids, an index whose first entry
  is such an object, a document with no timestamp, an index of three ids, and an index
  that is an object.
\<close>

definition doc_odd_text :: string where
  \<open>doc_odd_text =
     ''{"data":"FHE-MTA=","timestamp":{"toString":null},"institution":"0xAA","phenotype":"height","status":"pending","snpCount":5}''\<close>

definition doc_odd_value :: jsval where
  "doc_odd_value =
     JObject [(''data'', JString ''FHE-MTA=''), (''timestamp'', JObject [(''toString'', JNull)]),
      (''institution'', JString ''0xAA''), (''phenotype'', JString ''height''),
      (''status'', JString ''pending''), (''snpCount'', JNumber (Num 5))]"

definition index_pair_text :: string where
  \<open>index_pair_text = ''["a","t"]''\<close>

definition index_pair_value :: jsval where
  "index_pair_value = JArray [JString ''a'', JString ''t'']"

definition index_odd_text :: string where
  \<open>index_odd_text = ''[{"toString":null},"a"]''\<close>

definition index_odd_value :: jsval where
  "index_odd_value = JArray [JObject [(''toString'', JNull)], JString ''a'']"

definition doc_undated_text :: string where
  \<open>doc_undated_text =
     ''{"data":"FHE-MTA=","institution":"0xAA","phenotype":"height","status":"pending","snpCount":5}''\<close>

definition doc_undated_value :: jsval where
  "doc_undated_value =
     JObject [(''data'', JString ''FHE-MTA=''),
      (''institution'', JString ''0xAA''), (''phenotype'', JString ''height''),
      (''status'', JString ''pending''), (''snpCount'', JNumber (Num 5))]"

definition index_undated_text :: string where
  \<open>index_undated_text = ''["a","u","b"]''\<close>

definition index_undated_value :: jsval where
  "index_undated_value = JArray [JString ''a'', JString ''u'', JString ''b'']"

definition index_object_text :: string where
  \<open>index_object_text = ''{}''\<close>

definition index_object_value :: jsval where
  "index_object_value = JObject []"

definition test_docs :: "(string \<times> jsval) list" where
  "test_docs =
     [(doc_pending_text, doc_pending_value), (doc_processed_text, doc_processed_value),
      (doc_b_text, doc_b_value), (doc_c_text, doc_c_value), (doc_new_text, doc_new_value),
      (index_text, index_value), (index_new_text, index_new_value),
      (index_appended_text, index_appended_value), (doc_odd_text, doc_odd_value),
      (index_pair_text, index_pair_value), (index_odd_text, index_odd_value),
      (index_object_text, index_object_value), (doc_undated_text, doc_undated_value),
      (index_undated_text, index_undated_value)]"

definition test_stringify :: "jsval \<Rightarrow> string" where
  "test_stringify v = (case find (\<lambda>p. snd p = v) test_docs of None \<Rightarrow> ''null'' | Some p \<Rightarrow> fst p)"

definition test_env :: js_env where
  "test_env =
     \<lparr> Number_toString = test_toString, parseFloat = test_parseFloat,
       StringToNumber = test_parseFloat, JSON_parse = map_of test_docs,
       JSON_stringify = test_stringify, toUtf8String = Some, toUtf8Bytes = (\<lambda>s. s),
       Array_sort = map fst \<rparr>"

text \<open>
  A store with three pending records \<open>a\<close>, \<open>b\<close>, \<open>c\<close> of timestamps 100, 300, 200, a
  document \<open>m\<close> that is not JSON, and an indexed id \<open>x\<close> with no document.
\<close>

definition test_store :: "string \<Rightarrow> bytes" where
  \<open>test_store k =
     (if k = ''gwas_record_keys'' then index_text
      else if k = ''gwas_record_a'' then doc_pending_text
      else if k = ''gwas_record_b'' then doc_b_text
      else if k = ''gwas_record_c'' then doc_c_text
      else if k = ''gwas_record_m'' then ''{"data":''
      else [])\<close>

definition test_world :: "(string \<Rightarrow> bytes) \<Rightarrow> string \<Rightarrow> world" where
  "test_world st caller =
     \<lparr> isConnected = True, address = Some caller, readOnlyContract = True,
       signerContract = True, available = True, store = st, records = [],
       transactionStatus = \<lparr>visible = False, tx_status = TxPending, message = Text []\<rparr>,
       newRecordData = \<lparr>new_phenotype = ''height'', new_description = [],
                        new_snpCount = Num 5, new_effectSize = Num 0\<rparr>,
       alerts = [], console = [], calls = [] \<rparr>"

text \<open>
  The same store once \<open>a\<close> has been processed, and a store whose index is not JSON.
\<close>

definition processed_store :: "string \<Rightarrow> bytes" where
  "processed_store = test_store(''gwas_record_a'' := doc_processed_text)"

definition broken_index_store :: "string \<Rightarrow> bytes" where
  \<open>broken_index_store = (\<lambda>k. [])(''gwas_record_keys'' := ''{"data":'')\<close>



definition object_index_store :: "string \<Rightarrow> bytes" where
  "object_index_store = (\<lambda>k. [])(''gwas_record_keys'' := index_object_text)"



section \<open>Base64 round trip\<close>

lemma of_char_lt: "(of_char c :: nat) < 256"
  by (metis of_char_mod_256 mod_less_divisor zero_less_numeral)

lemma b64_index_char: "i < 64 \<Longrightarrow> b64_index (b64_char i) = Some i"
  by (simp add: b64_index_def b64_char_def Let_def) arith

lemma b64_val_char: "i < 64 \<Longrightarrow> b64_val (b64_char i) = i"
  by (simp add: b64_val_def b64_index_char)

lemma b64_index_pad: "b64_index (CHR ''='') = None"
  by (simp add: b64_index_def)

lemma b64_index_ws: "is_ascii_whitespace c \<Longrightarrow> b64_index c = None"
  by (auto simp add: b64_index_def is_ascii_whitespace_def)

lemma btoa_split: "btoa t = map b64_char (b64_body t) @ b64_pad t"
  by (induction t rule: btoa.induct) (simp_all add: Let_def)

lemma sextet_bounds:
  fixes x y z :: nat
  assumes "x < 256" "y < 256" "z < 256"
  shows "x div 4 < 64" "(x mod 4) * 16 < 64" "(x mod 4) * 16 + y div 16 < 64"
    "(y mod 16) * 4 < 64" "(y mod 16) * 4 + z div 64 < 64" "z mod 64 < 64"
  using assms by arith+

lemma b64_body_lt: "s \<in> set (b64_body t) \<Longrightarrow> s < 64"
proof (induction t arbitrary: s rule: b64_body.induct)
  case 1 then show ?case by simp
next
  case (2 a)
  then show ?case using sextet_bounds [of "of_char a" "of_char a" "of_char a", OF of_char_lt of_char_lt of_char_lt]
    by (auto simp add: Let_def)
next
  case (3 a b)
  then show ?case using sextet_bounds [of "of_char a" "of_char b" "of_char b", OF of_char_lt of_char_lt of_char_lt]
    by (auto simp add: Let_def)
next
  case (4 a b c rest)
  then show ?case using sextet_bounds [of "of_char a" "of_char b" "of_char c", OF of_char_lt of_char_lt of_char_lt]
    by (auto simp add: Let_def)
qed

lemma b64_body_length: "length (b64_body t) mod 4 \<noteq> 1"
  by (induction t rule: b64_body.induct) (simp_all add: Let_def)

lemma btoa_length: "length (btoa t) mod 4 = 0"
  by (induction t rule: btoa.induct) (simp_all add: Let_def)

lemma byte_rebuild1:
  fixes x y z :: nat
  assumes "x < 256" "y < 256"
  shows "x div 4 * 4 + ((x mod 4) * 16 + y div 16) div 16 = x"
proof -
  have "y div 16 < 16" using assms by simp
  then have "((x mod 4) * 16 + y div 16) div 16 = x mod 4" by simp
  then show ?thesis by simp
qed
lemma byte_rebuild2:
  fixes x y z :: nat
  assumes "y < 256" "z < 256"
  shows "(((x mod 4) * 16 + y div 16) mod 16) * 16 + ((y mod 16) * 4 + z div 64) div 4 = y"
proof -
  have "y div 16 < 16" "z div 64 < 4" using assms by simp_all
  then have "((x mod 4) * 16 + y div 16) mod 16 = y div 16" "((y mod 16) * 4 + z div 64) div 4 = y mod 16" by simp_all
  then show ?thesis by simp
qed
lemma byte_rebuild3:
  fixes x y z :: nat
  assumes "z < 256"
  shows "(((y mod 16) * 4 + z div 64) mod 4) * 64 + z mod 64 = z"
proof -
  have "z div 64 < 4" using assms by simp
  then have "((y mod 16) * 4 + z div 64) mod 4 = z div 64" by simp
  then show ?thesis by simp
qed
lemma b64_decode_body: "b64_decode (b64_body t) = t"
proof (induction t rule: b64_body.induct)
  case 1 then show ?case by simp
next
  case (2 a)
  show ?case using byte_rebuild1 [of "of_char a" 0]
    by (simp add: Let_def)
next
  case (3 a b)
  show ?case
    using byte_rebuild1 [of "of_char a" "of_char b"] byte_rebuild2 [of "of_char b" 0 "of_char a"]
    by (simp add: Let_def of_char_lt)
next
  case (4 a b c rest)
  then show ?case
    using byte_rebuild1 [of "of_char a" "of_char b"]
      byte_rebuild2 [of "of_char b" "of_char c" "of_char a"]
      byte_rebuild3 [of "of_char c" "of_char b"]
    by (simp add: Let_def of_char_lt)
qed

lemma strip_padding_none: "xs = [] \<or> last xs \<noteq> CHR ''='' \<Longrightarrow> strip_padding xs = xs"
  by (cases xs rule: rev_cases) (auto simp add: strip_padding_def split: list.splits)

lemma strip_padding_one:
  "xs = [] \<or> last xs \<noteq> CHR ''='' \<Longrightarrow> strip_padding (xs @ ''='') = xs"
  by (cases xs rule: rev_cases) (auto simp add: strip_padding_def split: list.splits)

lemma strip_padding_two: "strip_padding (xs @ ''=='') = xs"
  by (simp add: strip_padding_def)

lemma b64_pad_cases: "b64_pad t = [] \<or> b64_pad t = ''='' \<or> b64_pad t = ''==''"
  by (induction t rule: b64_pad.induct) simp_all

lemma b64_char_not_pad: "i < 64 \<Longrightarrow> b64_char i \<noteq> CHR ''=''"
  using b64_index_char [of i] b64_index_pad by auto

lemma strip_padding_btoa: "strip_padding (btoa t) = map b64_char (b64_body t)"
proof -
  let ?b = "map b64_char (b64_body t)"
  have "?b = [] \<or> last ?b \<noteq> CHR ''=''"
  proof (cases "b64_body t = []")
    case True then show ?thesis by simp
  next
    case False
    then have "last (b64_body t) \<in> set (b64_body t)" by simp
    then have "last (b64_body t) < 64" by (rule b64_body_lt)
    then show ?thesis using False by (simp add: last_map b64_char_not_pad)
  qed
  then have none: "strip_padding ?b = ?b" and one: "strip_padding (?b @ ''='') = ?b"
    by (rule strip_padding_none, rule strip_padding_one)
  have two: "strip_padding (?b @ ''=='') = ?b" by (rule strip_padding_two)
  from b64_pad_cases [of t] show ?thesis
    using none one two by (auto simp add: btoa_split)
qed

lemma btoa_no_whitespace: "filter (\<lambda>c. \<not> is_ascii_whitespace c) (btoa t) = btoa t"
proof -
  have "\<not> is_ascii_whitespace c" if "c \<in> set (btoa t)" for c
  proof -
    from that have "c \<in> b64_char ` set (b64_body t) \<or> c = CHR ''=''"
      using b64_pad_cases [of t] by (auto simp add: btoa_split)
    then show ?thesis
    proof
      assume "c \<in> b64_char ` set (b64_body t)"
      then obtain i where "i < 64" "c = b64_char i" using b64_body_lt by auto
      then show ?thesis using b64_index_ws [of c] b64_index_char [of i] by auto
    next
      assume "c = CHR ''=''"
      then show ?thesis by (simp add: is_ascii_whitespace_def)
    qed
  qed
  then show ?thesis by (simp add: filter_id_conv)
qed

lemma atob_btoa: "atob (btoa t) = Inr t"
proof -
  let ?b = "map b64_char (b64_body t)"
  have valid: "\<not> list_ex (\<lambda>c. b64_index c = None) ?b"
    by (auto simp add: list_ex_iff b64_index_char dest!: b64_body_lt)
  have vals: "map (b64_val \<circ> b64_char) (b64_body t) = b64_body t"
    by (simp add: map_idI b64_val_char b64_body_lt)
  show ?thesis
    using valid b64_body_length [of t]
    by (simp add: atob_def btoa_no_whitespace btoa_length strip_padding_btoa vals
        b64_decode_body Let_def)
qed

section \<open>Numeric facts\<close>


lemmas b64_eval = b64_char_def atob_def is_ascii_whitespace_def strip_padding_def
  b64_index_def b64_val_def char_of_def bit_0

lemma exp_minus_one_neq:
  "exp (- 1 :: real) \<noteq> 10" "(10 :: real) \<noteq> exp (- 1)"
  "exp (- 1 :: real) \<noteq> 1700000000000" "(1700000000000 :: real) \<noteq> exp (- 1)"
  "(0 :: real) \<noteq> exp (- 1)"
proof -
  have "exp (- 1 :: real) < 1" by simp
  then show "exp (- 1 :: real) \<noteq> 10" "(10 :: real) \<noteq> exp (- 1)"
    "exp (- 1 :: real) \<noteq> 1700000000000" "(1700000000000 :: real) \<noteq> exp (- 1)"
    by linarith+
  have "0 < exp (- 1 :: real)" by simp
  then show "(0 :: real) \<noteq> exp (- 1)" by linarith
qed


lemma decrypt_encrypt:
  "parseFloat env (Number_toString env x) = x \<Longrightarrow>
   FHEDecryptNumber env (FHEEncryptNumber env x) = Inr x"
  by (simp add: FHEDecryptNumber_def FHEEncryptNumber_def atob_btoa)

section \<open>Frames and outcomes of the operations\<close>

lemma store_loadRecords: "store (loadRecords env w) = store w"
  by (simp add: loadRecords_def load_failed_def Let_def split: prod.splits sum.splits option.splits)

lemma transactionStatus_loadRecords:
  "transactionStatus (loadRecords env w) = transactionStatus w"
  by (simp add: loadRecords_def load_failed_def Let_def split: prod.splits sum.splits option.splits)

lemma new_record_key_not_index: "record_key (new_record_id env now_id rnd) \<noteq> index_key"
  by (simp add: record_key_def new_record_id_def index_key_def)

lemma record_key_index: "record_key rid = index_key \<longleftrightarrow> rid = ''keys''"
  by (simp add: record_key_def index_key_def)

lemma map_of_replace_other:
  "name' \<noteq> name \<Longrightarrow>
   map_of (map (\<lambda>(k, v). if k = name then (k, x) else (k, v)) kvs) name' = map_of kvs name'"
  by (induction kvs) auto

lemma map_of_replace_same:
  "map_of kvs name = Some y \<Longrightarrow>
   map_of (map (\<lambda>(k, v). if k = name then (k, x) else (k, v)) kvs) name = Some x"
  by (induction kvs) (auto split: if_splits)

lemma map_of_obj_set_same: "map_of (obj_set name x kvs) name = Some x"
  by (auto simp add: obj_set_def map_of_replace_same map_add_def)

lemma map_of_obj_set_other:
  "name' \<noteq> name \<Longrightarrow> map_of (obj_set name x kvs) name' = map_of kvs name'"
  by (simp add: obj_set_def map_of_replace_other map_add_def split: option.splits)

lemma get_prop_string:
  "get_prop v name = Inr (JString s) \<Longrightarrow> \<exists>kvs. v = JObject kvs \<and> map_of kvs name = Some (JString s)"
  by (cases v) (auto split: option.splits)

lemma compute_on_Inr: "compute_on env d = Inr p \<Longrightarrow> \<exists>s. d = JString s \<and> FHEComputeGWAS env s = Inr p"
  by (cases d) (auto simp add: compute_on_def)

lemma upload_keys_empty: "upload_keys env [] = (JArray [], [])"
  by (simp add: upload_keys_def)

lemma upload_store:
  assumes "isConnected w" "signerContract w"
    and "upload_keys env (store w index_key) = (JArray ks, lg)"
  shows "store (uploadGWASData env now_id now_ts rnd w) =
      (store w)(record_key (new_record_id env now_id rnd) := encode_json env (new_record env w now_ts),
                index_key := encode_json env (JArray (ks @ [JString (new_record_id env now_id rnd)])))"
    and "tx_status (transactionStatus (uploadGWASData env now_id now_ts rnd w)) = TxSuccess"
  using assms new_record_key_not_index [of env now_id rnd]
  by (simp_all add: uploadGWASData_def Let_def store_loadRecords transactionStatus_loadRecords
      new_record_def)

lemma processGWAS_ok:
  assumes "isConnected w" "readOnlyContract w" "signerContract w"
    and "store w (record_key rid) \<noteq> []"
    and "parse_json env (store w (record_key rid)) = Inr (JObject kvs)"
    and "map_of kvs ''data'' = Some (JString d)"
    and "FHEComputeGWAS env d = Inr d'"
  shows "store (processGWAS env w rid) =
      (store w)(record_key rid := encode_json env
         (JObject (obj_set ''data'' (JString d') (obj_set ''status'' (JString ''processed'') kvs))))"
    and "tx_status (transactionStatus (processGWAS env w rid)) = TxSuccess"
  using assms
  by (simp_all add: processGWAS_def Let_def store_loadRecords transactionStatus_loadRecords
      compute_on_def updated_record_def)

lemma processGWAS_success:
  assumes "isConnected w"
    and "tx_status (transactionStatus (processGWAS env w rid)) = TxSuccess"
  shows "\<exists>kvs d d'. readOnlyContract w \<and> signerContract w \<and> store w (record_key rid) \<noteq> [] \<and>
      parse_json env (store w (record_key rid)) = Inr (JObject kvs) \<and>
      map_of kvs ''data'' = Some (JString d) \<and> FHEComputeGWAS env d = Inr d'"
  using assms
  by (auto simp add: processGWAS_def Let_def process_failed_def transactionStatus_loadRecords
      split: if_splits sum.splits dest!: compute_on_Inr get_prop_string)

lemma processGWAS_failure_store:
  "tx_status (transactionStatus (processGWAS env w rid)) \<noteq> TxSuccess \<Longrightarrow>
   store (processGWAS env w rid) = store w"
  by (auto simp add: processGWAS_def Let_def process_failed_def transactionStatus_loadRecords
      store_loadRecords split: if_splits sum.splits)

lemma processGWAS_address:
  "store (processGWAS env (w\<lparr>address := a\<rparr>) rid) = store (processGWAS env w rid)"
  "transactionStatus (processGWAS env (w\<lparr>address := a\<rparr>) rid) =
     transactionStatus (processGWAS env w rid)"
  by (simp_all add: processGWAS_def Let_def process_failed_def store_loadRecords
      transactionStatus_loadRecords split: sum.splits)

lemma processGWAS_not_found:
  assumes "isConnected w" "readOnlyContract w" "store w (record_key rid) = []"
  shows "transactionStatus (processGWAS env w rid) =
      \<lparr>visible = True, tx_status = TxError,
       message = Failure ''Processing failed: '' (Error ''Record not found'')\<rparr>"
    and "store (processGWAS env w rid) = store w"
  using assms by (simp_all add: processGWAS_def Let_def process_failed_def)

section \<open>Listing and sorting\<close>

lemma make_record_object:
  "make_record key (JObject kvs) =
     Inr \<lparr> id_field = key,
           encryptedData = (case map_of kvs ''data'' of None \<Rightarrow> JUndefined | Some v \<Rightarrow> v),
           timestamp = (case map_of kvs ''timestamp'' of None \<Rightarrow> JUndefined | Some v \<Rightarrow> v),
           institution = (case map_of kvs ''institution'' of None \<Rightarrow> JUndefined | Some v \<Rightarrow> v),
           phenotype = (case map_of kvs ''phenotype'' of None \<Rightarrow> JUndefined | Some v \<Rightarrow> v),
           status = js_or (case map_of kvs ''status'' of None \<Rightarrow> JUndefined | Some v \<Rightarrow> v)
                      (JString ''pending''),
           snpCount = js_or (case map_of kvs ''snpCount'' of None \<Rightarrow> JUndefined | Some v \<Rightarrow> v)
                        (JNumber (Num 0)) \<rparr>"
  by (simp add: make_record_def)

lemma load_keys_failed:
  "parse_json env b = Inl e \<Longrightarrow> fst (load_keys env b) = JArray []"
  by (auto simp add: load_keys_def parse_json_def split: option.splits)

lemma upload_keys_failed:
  "parse_json env b = Inl e \<Longrightarrow> fst (upload_keys env b) = JArray []"
  by (simp add: upload_keys_def)





lemma coerce_all_Cons:
  "coerce_all (x # xs) = Inr vs \<longleftrightarrow>
     (\<exists>v vs'. x = Inr v \<and> coerce_all xs = Inr vs' \<and> vs = v # vs')"
  by (auto split: sum.splits)















lemma loadRecords_no_keys:
  assumes "readOnlyContract w" "available w"
    and k: "fst (load_keys env (store w index_key)) = JArray []"
  shows "records (loadRecords env w) = []"
proof -
  obtain lg where si: "load_keys env (store w index_key) = (JArray [], lg)"
    using k by (cases "load_keys env (store w index_key)") simp
  show ?thesis
    using assms(1,2) by (simp add: loadRecords_def Let_def si sort_records_def)
qed






lemma load_loop_calls:
  "load_loop env st ks (l, g, c) = (err, l', g', c') \<Longrightarrow>
   \<exists>rest. c' = c @ rest \<and> (\<forall>x \<in> set rest. \<exists>k. x = GetData k)"
proof (induction ks arbitrary: l g c)
  case Nil
  then show ?case by simp
next
  case (Cons k ks)
  show ?case
  proof (cases "ToString env k")
    case (Inl e)
    then show ?thesis using Cons.prems by simp
  next
    case (Inr s)
    then obtain l1 g1 where
      "load_loop env st ks (l1, g1, c @ [GetData (record_key s)]) = (err, l', g', c')"
      using Cons.prems by (auto split: sum.splits option.splits)
    from Cons.IH [OF this] obtain rest where
      "c' = (c @ [GetData (record_key s)]) @ rest" "\<forall>x \<in> set rest. \<exists>k. x = GetData k"
      by blast
    then show ?thesis by (intro exI [where x = "GetData (record_key s) # rest"]) simp
  qed
qed

lemma calls_loadRecords_reads:
  "\<exists>rest. calls (loadRecords env w) = calls w @ rest \<and> (\<forall>x \<in> set rest. \<exists>k. x = GetData k)"
proof (cases "readOnlyContract w \<and> available w")
  case False
  then show ?thesis by (auto simp add: loadRecords_def)
next
  case True
  obtain v lg where si: "load_keys env (store w index_key) = (v, lg)"
    by (cases "load_keys env (store w index_key)")
  show ?thesis
  proof (cases "js_iterate v")
    case (Inl e)
    then show ?thesis using True si by (simp add: loadRecords_def Let_def load_failed_def)
  next
    case (Inr ks)
    obtain err l g c where lp: "load_loop env (store w) ks ([], [], []) = (err, l, g, c)"
      by (cases "load_loop env (store w) ks ([], [], [])")
    from load_loop_calls [OF lp] have r: "\<forall>x \<in> set c. \<exists>k. x = GetData k" by simp
    have "calls (loadRecords env w) = calls w @ GetData index_key # c"
      using True si Inr lp
      by (simp add: loadRecords_def Let_def load_failed_def split: option.splits sum.splits)
    then show ?thesis using r by (intro exI [where x = "GetData index_key # c"]) simp
  qed
qed

lemma loadRecords_after:
  "calls w = pre \<Longrightarrow>
   \<exists>rest. calls (loadRecords env w) = pre @ rest \<and> (\<forall>x \<in> set rest. \<exists>k. x = GetData k)"
  using calls_loadRecords_reads [of env w] by simp

section \<open>The calls of \<open>uploadGWASData\<close>\<close>

lemma upload_then_list:
  assumes "isConnected w" "signerContract w"
    and "upload_keys env (store w index_key) = (JArray ks, lg)"
  shows "\<exists>w'. uploadGWASData env now_id now_ts rnd w = loadRecords env w' \<and>
      calls w' = calls w @
        [SetData (record_key (new_record_id env now_id rnd)) (encode_json env (new_record env w now_ts)),
         GetData index_key,
         SetData index_key (encode_json env (JArray (ks @ [JString (new_record_id env now_id rnd)])))]"
  using assms new_record_key_not_index [of env now_id rnd]
  by (simp add: uploadGWASData_def Let_def new_record_def) (rule exI, rule conjI, rule refl, simp)

lemma upload_calls_reads:
  assumes "isConnected w" "signerContract w"
    and "upload_keys env (store w index_key) = (JArray ks, lg)"
  shows "\<exists>rest. calls (uploadGWASData env now_id now_ts rnd w) =
      calls w @
      [SetData (record_key (new_record_id env now_id rnd)) (encode_json env (new_record env w now_ts)),
       GetData index_key,
       SetData index_key (encode_json env (JArray (ks @ [JString (new_record_id env now_id rnd)])))]
      @ rest \<and> (\<forall>x \<in> set rest. \<exists>k. x = GetData k)"
proof -
  from upload_then_list [OF assms, of now_id now_ts rnd] obtain w' where
    u: "uploadGWASData env now_id now_ts rnd w = loadRecords env w'"
    and c: "calls w' = calls w @
        [SetData (record_key (new_record_id env now_id rnd)) (encode_json env (new_record env w now_ts)),
         GetData index_key,
         SetData index_key (encode_json env (JArray (ks @ [JString (new_record_id env now_id rnd)])))]"
    by blast
  show ?thesis unfolding u using loadRecords_after [OF c, of env] by simp
qed

lemma upload_push_failed:
  assumes "isConnected w" "signerContract w"
    and "upload_keys env (store w index_key) = (v, lg)"
    and "js_push v (JString (new_record_id env now_id rnd)) = Inl e"
  shows "store (uploadGWASData env now_id now_ts rnd w) =
      (store w)(record_key (new_record_id env now_id rnd) := encode_json env (new_record env w now_ts))"
    and "transactionStatus (uploadGWASData env now_id now_ts rnd w) =
      \<lparr>visible = True, tx_status = TxError, message = Failure ''Submission failed: '' e\<rparr>"
    and "calls (uploadGWASData env now_id now_ts rnd w) =
      calls w @
      [SetData (record_key (new_record_id env now_id rnd)) (encode_json env (new_record env w now_ts)),
       GetData index_key]"
  using assms new_record_key_not_index [of env now_id rnd]
  by (simp_all add: uploadGWASData_def Let_def upload_failed_def new_record_def)

lemma upload_keys_cases:
  assumes "b = [] \<and> ks = [] \<or>
         b \<noteq> [] \<and> parse_json env b = Inr (JArray ks) \<or>
         b \<noteq> [] \<and> ks = [] \<and> (\<exists>e. parse_json env b = Inl e)"
  shows "\<exists>lg. upload_keys env b = (JArray ks, lg)"
  using assms by (auto simp add: upload_keys_def)

section \<open>What the operations write\<close>

lemma written_array: "written_by_app env (encode_json env (JArray ks))"
  by (auto simp add: written_by_app_def)

lemma written_new_record: "written_by_app env (encode_json env (new_record env w t))"
proof -
  have "\<exists>kvs. new_record env w t = JObject kvs \<and> map_of kvs ''status'' = Some (JString ''pending'')"
    by (simp add: new_record_def)
  then show ?thesis by (auto simp add: written_by_app_def)
qed

lemma written_updated:
  "written_by_app env (encode_json env
     (JObject (obj_set ''data'' x (obj_set ''status'' (JString ''processed'') kvs))))"
proof -
  have "map_of (obj_set ''data'' x (obj_set ''status'' (JString ''processed'') kvs)) ''status''
      = Some (JString ''processed'')"
    by (simp add: map_of_obj_set_other map_of_obj_set_same)
  then show ?thesis unfolding written_by_app_def by blast
qed

lemma js_push_Inr: "js_push keys x = Inr keys' \<Longrightarrow> \<exists>xs. keys' = JArray xs"
  by (cases keys) auto

lemma new_record_transactionStatus [simp]:
  "new_record env (w\<lparr>transactionStatus := t\<rparr>) now_ts = new_record env w now_ts"
  by (simp add: new_record_def)

lemma upload_store_cases:
  "store (uploadGWASData env now_id now_ts rnd w) k = store w k \<or>
   store (uploadGWASData env now_id now_ts rnd w) k = encode_json env (new_record env w now_ts) \<or>
   (\<exists>xs. store (uploadGWASData env now_id now_ts rnd w) k = encode_json env (JArray xs))"
proof (cases "isConnected w \<and> signerContract w")
  case False
  then show ?thesis
    by (auto simp add: uploadGWASData_def Let_def upload_failed_def)
next
  case True
  obtain keys lg where u: "upload_keys env
      (((store w)(record_key (new_record_id env now_id rnd) :=
          encode_json env (new_record env w now_ts))) index_key) = (keys, lg)"
    by (cases "upload_keys env
      (((store w)(record_key (new_record_id env now_id rnd) :=
          encode_json env (new_record env w now_ts))) index_key)") auto
  show ?thesis
  proof (cases "js_push keys (JString (new_record_id env now_id rnd))")
    case (Inl e)
    then show ?thesis using True u
      by (auto simp add: uploadGWASData_def Let_def upload_failed_def)
  next
    case (Inr keys')
    then obtain xs where "keys' = JArray xs" using js_push_Inr by blast
    then show ?thesis using True u Inr
      by (auto simp add: uploadGWASData_def Let_def store_loadRecords)
  qed
qed

lemma processGWAS_store_cases:
  "store (processGWAS env w rid) = store w \<or>
   (\<exists>kvs x. store (processGWAS env w rid) =
      (store w)(record_key rid := encode_json env
         (JObject (obj_set ''data'' x (obj_set ''status'' (JString ''processed'') kvs)))))"
proof (cases "isConnected w")
  case False
  then show ?thesis by (simp add: processGWAS_def)
next
  case True
  show ?thesis
  proof (cases "tx_status (transactionStatus (processGWAS env w rid)) = TxSuccess")
    case False
    then show ?thesis by (simp add: processGWAS_failure_store)
  next
    case s: True
    from processGWAS_success [OF True s] obtain kvs d d' where
      "readOnlyContract w" "signerContract w" "store w (record_key rid) \<noteq> []"
      "parse_json env (store w (record_key rid)) = Inr (JObject kvs)"
      "map_of kvs ''data'' = Some (JString d)" "FHEComputeGWAS env d = Inr d'"
      by blast
    then show ?thesis using processGWAS_ok(1) [OF True, of rid env kvs d d'] by blast
  qed
qed

lemma decoded_status:
  assumes "written_by_app env b" and "b \<noteq> []"
    and "parse_json env b = Inr (JObject kvs)"
    and "\<forall>v. b = encode_json env v \<longrightarrow> parse_json env (encode_json env v) = Inr v"
  shows "map_of kvs ''status'' = Some (JString ''pending'') \<or>
         map_of kvs ''status'' = Some (JString ''processed'')"
proof -
  from assms(1,2) consider
    (arr) ks where "b = encode_json env (JArray ks)"
  | (obj) kvs' where "b = encode_json env (JObject kvs')"
      "map_of kvs' ''status'' = Some (JString ''pending'') \<or>
       map_of kvs' ''status'' = Some (JString ''processed'')"
    unfolding written_by_app_def by blast
  then show ?thesis
  proof cases
    case arr
    then have "parse_json env b = Inr (JArray ks)" using assms(4) by simp
    then show ?thesis using assms(3) by simp
  next
    case obj
    then have "parse_json env b = Inr (JObject kvs')" using assms(4) by simp
    then have "kvs' = kvs" using assms(3) by simp
    then show ?thesis using obj(2) by simp
  qed
qed

section \<open>The test double at work\<close>

lemma test_env_simps:
  "Number_toString test_env = test_toString" "parseFloat test_env = test_parseFloat"
  "StringToNumber test_env = test_parseFloat" "JSON_parse test_env = map_of test_docs"
  "JSON_stringify test_env = test_stringify" "toUtf8String test_env = Some"
  "toUtf8Bytes test_env = (\<lambda>s. s)" "Array_sort test_env = map fst"
  by (simp_all add: test_env_def)

lemmas test_texts = doc_pending_text_def doc_processed_text_def doc_b_text_def doc_c_text_def
  doc_new_text_def index_text_def index_new_text_def index_appended_text_def doc_odd_text_def
  index_pair_text_def index_odd_text_def index_object_text_def doc_undated_text_def
  index_undated_text_def

lemmas test_values = doc_pending_value_def doc_processed_value_def doc_b_value_def
  doc_c_value_def doc_new_value_def index_value_def index_new_value_def
  index_appended_value_def doc_odd_value_def index_pair_value_def index_odd_value_def
  index_object_value_def doc_undated_value_def index_undated_value_def

lemma test_parse:
  "parse_json test_env doc_pending_text = Inr doc_pending_value"
  "parse_json test_env doc_processed_text = Inr doc_processed_value"
  "parse_json test_env doc_b_text = Inr doc_b_value"
  "parse_json test_env doc_c_text = Inr doc_c_value"
  "parse_json test_env index_text = Inr index_value"
  "parse_json test_env doc_new_text = Inr doc_new_value"
  "parse_json test_env doc_odd_text = Inr doc_odd_value"
  "parse_json test_env index_pair_text = Inr index_pair_value"
  "parse_json test_env index_odd_text = Inr index_odd_value"
  "parse_json test_env index_object_text = Inr index_object_value"
  by (simp_all add: parse_json_def test_env_simps test_docs_def test_texts)

lemma test_parse_malformed: \<open>parse_json test_env ''{"data":'' = Inl SyntaxError\<close>
  by (simp add: parse_json_def test_env_simps test_docs_def test_texts)

lemma test_encode:
  "encode_json test_env doc_processed_value = doc_processed_text"
  "encode_json test_env doc_new_value = doc_new_text"
  "encode_json test_env index_new_value = index_new_text"
  "encode_json test_env index_appended_value = index_appended_text"
  by (simp_all add: encode_json_def test_env_simps test_stringify_def test_docs_def test_values)

lemma test_encrypt:
  "FHEEncryptNumber test_env (Num 0) = ''FHE-MA==''"
  "FHEEncryptNumber test_env (Num 10) = ''FHE-MTA=''"
  "FHEEncryptNumber test_env (Num (exp (- 1))) = ''FHE-MC4zNjc4Nzk0NDExNzE0NDIzMw==''"
  by (simp_all add: FHEEncryptNumber_def test_env_simps test_toString_def exp_minus_one_neq b64_eval)

lemma test_decrypt:
  "FHEDecryptNumber test_env ''FHE-MA=='' = Inr (Num 0)"
  "FHEDecryptNumber test_env ''FHE-MTA='' = Inr (Num 10)"
  "FHEDecryptNumber test_env ''FHE-MC4zNjc4Nzk0NDExNzE0NDIzMw=='' = Inr (Num (exp (- 1)))"
  by (simp_all add: FHEDecryptNumber_def test_env_simps test_parseFloat_def b64_eval)

lemma test_compute:
  "FHEComputeGWAS test_env ''FHE-MTA='' = Inr ''FHE-MC4zNjc4Nzk0NDExNzE0NDIzMw==''"
  by (simp add: FHEComputeGWAS_def test_decrypt test_encrypt)

lemma test_new_record_id:
  "new_record_id test_env 1700000000000 ''0.k3j2h1'' = ''gwas-1700000000000-k3j2''"
  by (simp add: new_record_id_def test_env_simps test_toString_def exp_minus_one_neq)

lemma test_world_simps:
  "isConnected (test_world st c)" "readOnlyContract (test_world st c)"
  "signerContract (test_world st c)" "available (test_world st c)"
  "store (test_world st c) = st" "address (test_world st c) = Some c"
  "console (test_world st c) = []"
  "newRecordData (test_world st c) =
     \<lparr>new_phenotype = ''height'', new_description = [],
      new_snpCount = Num 5, new_effectSize = Num 0\<rparr>"
  "calls (test_world st c) = []" "records (test_world st c) = []"
  by (simp_all add: test_world_def)

lemma test_store_simps:
  "test_store (record_key ''a'') = doc_pending_text"
  "test_store (record_key ''b'') = doc_b_text"
  "test_store (record_key ''c'') = doc_c_text"
  \<open>test_store (record_key ''m'') = ''{"data":''\<close>
  "test_store (record_key ''x'') = []"
  "test_store (record_key ''zzz'') = []"
  "test_store index_key = index_text"
  by (simp_all add: test_store_def record_key_def index_key_def)

lemma test_texts_nonempty:
  "doc_pending_text \<noteq> []" "doc_processed_text \<noteq> []" "doc_b_text \<noteq> []" "doc_c_text \<noteq> []"
  "index_text \<noteq> []" "doc_processed_text \<noteq> doc_pending_text" "doc_odd_text \<noteq> []"
  "index_pair_text \<noteq> []" "index_odd_text \<noteq> []" "index_object_text \<noteq> []"
  by (simp_all add: test_texts)

lemma processed_store_simps:
  "processed_store (record_key ''a'') = doc_processed_text"
  by (simp add: processed_store_def record_key_def)

lemma broken_index_simps:
  \<open>broken_index_store index_key = ''{"data":''\<close>
  by (simp add: broken_index_store_def index_key_def)








lemma test_process_store:
  assumes "isConnected w" "readOnlyContract w" "signerContract w" "store w = test_store"
  shows "tx_status (transactionStatus (processGWAS test_env w ''a'')) = TxSuccess"
    and "store (processGWAS test_env w ''a'') = test_store(record_key ''a'' := doc_processed_text)"
proof -
  let ?kvs = "[(''data'', JString ''FHE-MTA=''), (''timestamp'', JNumber (Num 100)),
      (''institution'', JString ''0xAA''), (''phenotype'', JString ''height''),
      (''status'', JString ''pending''), (''snpCount'', JNumber (Num 5))]"
  have p: "parse_json test_env (store w (record_key ''a'')) = Inr (JObject ?kvs)"
    using test_parse(1) by (simp add: assms(4) test_store_simps doc_pending_value_def)
  have n: "store w (record_key ''a'') \<noteq> []"
    by (simp add: assms(4) test_store_simps test_texts_nonempty)
  have d: "map_of ?kvs ''data'' = Some (JString ''FHE-MTA='')" by simp
  note ok = processGWAS_ok [OF assms(1,2,3) n p d test_compute]
  show "tx_status (transactionStatus (processGWAS test_env w ''a'')) = TxSuccess"
    by (rule ok(2))
  have u: "JObject (obj_set ''data'' (JString ''FHE-MC4zNjc4Nzk0NDExNzE0NDIzMw=='')
      (obj_set ''status'' (JString ''processed'') ?kvs)) = doc_processed_value"
    by (simp add: obj_set_def doc_processed_value_def)
  show "store (processGWAS test_env w ''a'') = test_store(record_key ''a'' := doc_processed_text)"
    using ok(1) unfolding u by (simp add: test_encode assms(4))
qed

lemma test_new_record:
  assumes "address w = Some ''0xAA''"
    and "newRecordData w = \<lparr>new_phenotype = ''height'', new_description = [],
      new_snpCount = Num 5, new_effectSize = Num 0\<rparr>"
  shows "new_record test_env w 1700000000999 = doc_new_value"
  by (simp add: new_record_def assms test_encrypt doc_new_value_def)

lemma test_upload_store:
  assumes "isConnected w" "signerContract w" "address w = Some ''0xAA''"
    and "newRecordData w = \<lparr>new_phenotype = ''height'', new_description = [],
      new_snpCount = Num 5, new_effectSize = Num 0\<rparr>"
    and "upload_keys test_env (store w index_key) = (JArray [], lg)"
  shows "store (uploadGWASData test_env 1700000000000 1700000000999 ''0.k3j2h1'' w) =
      (store w)(record_key ''gwas-1700000000000-k3j2'' := doc_new_text,
                index_key := index_new_text)"
    and "tx_status (transactionStatus
        (uploadGWASData test_env 1700000000000 1700000000999 ''0.k3j2h1'' w)) = TxSuccess"
proof -
  note u = upload_store [OF assms(1,2,5), of 1700000000000 1700000000999 "''0.k3j2h1''"]
  have i: "JArray ([] @ [JString ''gwas-1700000000000-k3j2'']) = index_new_value"
    by (simp add: index_new_value_def)
  show "store (uploadGWASData test_env 1700000000000 1700000000999 ''0.k3j2h1'' w) =
      (store w)(record_key ''gwas-1700000000000-k3j2'' := doc_new_text,
                index_key := index_new_text)"
    using u(1) unfolding test_new_record_id test_new_record [OF assms(3,4)] i
    by (simp add: test_encode)
  show "tx_status (transactionStatus
        (uploadGWASData test_env 1700000000000 1700000000999 ''0.k3j2h1'' w)) = TxSuccess"
    by (rule u(2))
qed

lemma key_texts:
  "''gwas_record_gwas-1700000000000-k3j2'' = record_key ''gwas-1700000000000-k3j2''"
  "''gwas_record_keys'' = index_key"
  "''gwas_record_a'' = record_key ''a''"
  by (simp_all add: record_key_def index_key_def)

lemma test_keys_distinct:
  "record_key ''gwas-1700000000000-k3j2'' \<noteq> index_key"
  "record_key ''a'' \<noteq> index_key"
  by (simp_all add: record_key_def index_key_def)

lemma test_codec_new:
  "doc_new_text = encode_json test_env v \<Longrightarrow> parse_json test_env (encode_json test_env v) = Inr v"
proof -
  assume a: "doc_new_text = encode_json test_env v"
  have "v = doc_new_value"
    using a
    by (simp add: encode_json_def test_env_simps test_stringify_def test_docs_def test_texts
        split: if_splits)
  then show ?thesis
    by (simp add: parse_json_def encode_json_def test_env_simps test_stringify_def test_docs_def
        test_texts test_values)
qed

section \<open>The placeholder cipher\<close>

text \<open>
  C2: \<open>FHEEncryptNumber\<close> is \<open>"FHE-"\<close> followed by the base64 text of the number's
  string; \<open>FHEDecryptNumber\<close> on a text with that prefix strips it, decodes the base64
  text and parses the result; and decoding an encoded number gives the number back. The
  base64 round trip is proved; that \<open>parseFloat\<close> reads back what \<open>toString\<close> printed,
  which the language guarantees for every finite number, is the hypothesis.
\<close>

theorem FHE_decrypt_encrypt:
  "FHEEncryptNumber env x = ''FHE-'' @ btoa (Number_toString env x)
   \<and> FHEDecryptNumber env (''FHE-'' @ t) =
       (case atob t of Inl e \<Rightarrow> Inl e | Inr s \<Rightarrow> Inr (parseFloat env s))
   \<and> (parseFloat env (Number_toString env x) = x \<longrightarrow>
       FHEDecryptNumber env (FHEEncryptNumber env x) = Inr x)"
proof (intro conjI impI)
  show "FHEEncryptNumber env x = ''FHE-'' @ btoa (Number_toString env x)"
    by (simp add: FHEEncryptNumber_def)
next
  show "FHEDecryptNumber env (''FHE-'' @ t) =
       (case atob t of Inl e \<Rightarrow> Inl e | Inr s \<Rightarrow> Inr (parseFloat env s))"
    by (simp add: FHEDecryptNumber_def)
next
  assume r: "parseFloat env (Number_toString env x) = x"
  have "atob (btoa (Number_toString env x)) = Inr (Number_toString env x)"
    by (rule atob_btoa)
  then have "FHEDecryptNumber env (''FHE-'' @ btoa (Number_toString env x)) =
      Inr (parseFloat env (Number_toString env x))"
    by (simp add: FHEDecryptNumber_def)
  then show "FHEDecryptNumber env (FHEEncryptNumber env x) = Inr x"
    by (simp add: FHEEncryptNumber_def r)
qed

theorem FHE_decrypt_encrypt_witness:
  "parseFloat test_env (Number_toString test_env (Num 10)) = Num 10 \<and>
   FHEEncryptNumber test_env (Num 10) = ''FHE-MTA='' \<and>
   FHEDecryptNumber test_env ''FHE-MTA='' = Inr (Num 10)"
proof -
  have h: "parseFloat test_env (Number_toString test_env (Num 10)) = Num 10"
    by (simp add: test_env_simps test_toString_def test_parseFloat_def exp_minus_one_neq)
  note t = FHE_decrypt_encrypt [of test_env "Num 10" "''MTA=''"]
  have e: "FHEEncryptNumber test_env (Num 10) = ''FHE-MTA=''"
    using t by (simp add: test_env_simps test_toString_def exp_minus_one_neq b64_eval)
  have d: "FHEDecryptNumber test_env ''FHE-MTA='' = Inr (Num 10)"
    using t h unfolding e by blast
  show ?thesis using h e d by (intro conjI)
qed



section \<open>List\<close>




text \<open>
  C8, as the code has it: a record decoded from an object takes the status \<open>pending\<close>
  when the property is missing or falsy, and keeps any other status as it is, known or
  not; a missing \<open>snpCount\<close> becomes 0; the index decodes to the empty sequence when the
  stored value is empty and when it does not parse, and the listing goes on (with no
  record).
\<close>

theorem decode_defaults:
  "(map_of kvs ''status'' = None \<longrightarrow>
      map_sum id status (make_record key (JObject kvs)) = Inr (JString ''pending''))
   \<and> (map_of kvs ''status'' = Some v \<and> truthy v \<longrightarrow>
      map_sum id status (make_record key (JObject kvs)) = Inr v)
   \<and> (map_of kvs ''status'' = Some v \<and> \<not> truthy v \<longrightarrow>
      map_sum id status (make_record key (JObject kvs)) = Inr (JString ''pending''))
   \<and> (map_of kvs ''snpCount'' = None \<longrightarrow>
      map_sum id snpCount (make_record key (JObject kvs)) = Inr (JNumber (Num 0)))
   \<and> fst (load_keys env []) = JArray []
   \<and> fst (upload_keys env []) = JArray []
   \<and> (parse_json env b = Inl e \<longrightarrow>
      fst (load_keys env b) = JArray [] \<and> fst (upload_keys env b) = JArray [])
   \<and> (readOnlyContract w \<and> available w \<and>
      (store w ''gwas_record_keys'' = [] \<or> parse_json env (store w ''gwas_record_keys'') = Inl e) \<longrightarrow>
      records (loadRecords env w) = [])"
proof -
  have c1: "map_of kvs ''status'' = None \<longrightarrow>
      map_sum id status (make_record key (JObject kvs)) = Inr (JString ''pending'')"
    by (simp add: make_record_object js_or_def)
  have c2: "map_of kvs ''status'' = Some v \<and> truthy v \<longrightarrow>
      map_sum id status (make_record key (JObject kvs)) = Inr v"
    by (simp add: make_record_object js_or_def)
  have c3: "map_of kvs ''status'' = Some v \<and> \<not> truthy v \<longrightarrow>
      map_sum id status (make_record key (JObject kvs)) = Inr (JString ''pending'')"
    by (simp add: make_record_object js_or_def)
  have c4: "map_of kvs ''snpCount'' = None \<longrightarrow>
      map_sum id snpCount (make_record key (JObject kvs)) = Inr (JNumber (Num 0))"
    by (simp add: make_record_object js_or_def)
  have c5: "fst (load_keys env []) = JArray []" by (simp add: load_keys_def)
  have c6: "fst (upload_keys env []) = JArray []" by (simp add: upload_keys_def)
  have c7: "parse_json env b = Inl e \<longrightarrow>
      fst (load_keys env b) = JArray [] \<and> fst (upload_keys env b) = JArray []"
    by (simp add: load_keys_failed upload_keys_failed)
  have c8: "readOnlyContract w \<and> available w \<and>
      (store w ''gwas_record_keys'' = [] \<or> parse_json env (store w ''gwas_record_keys'') = Inl e) \<longrightarrow>
      records (loadRecords env w) = []"
  proof
    assume h: "readOnlyContract w \<and> available w \<and>
      (store w ''gwas_record_keys'' = [] \<or> parse_json env (store w ''gwas_record_keys'') = Inl e)"
    then have "fst (load_keys env (store w index_key)) = JArray []"
      using c5 load_keys_failed [of env "store w index_key" e] by (auto simp add: index_key_def)
    from loadRecords_no_keys [OF _ _ this] h show "records (loadRecords env w) = []"
      by simp
  qed
  show ?thesis using c1 c2 c3 c4 c5 c6 c7 c8 by (intro conjI)
qed

theorem decode_defaults_witness:
  \<open>map_sum id status (make_record (JString ''a'') (JObject [])) = Inr (JString ''pending'') \<and>
   map_sum id snpCount (make_record (JString ''a'') (JObject [])) = Inr (JNumber (Num 0)) \<and>
   map_sum id status (make_record (JString ''a'') (JObject [(''status'', JString ''processed'')])) =
     Inr (JString ''processed'') \<and>
   map_sum id status (make_record (JString ''a'') (JObject [(''status'', JString [])])) =
     Inr (JString ''pending'') \<and>
   parse_json test_env ''{"data":'' = Inl SyntaxError \<and>
   fst (load_keys test_env ''{"data":'') = JArray [] \<and>
   fst (upload_keys test_env ''{"data":'') = JArray [] \<and>
   readOnlyContract (test_world broken_index_store ''0xAA'') \<and>
   available (test_world broken_index_store ''0xAA'') \<and>
   parse_json test_env (store (test_world broken_index_store ''0xAA'') ''gwas_record_keys'') =
     Inl SyntaxError \<and>
   records (loadRecords test_env (test_world broken_index_store ''0xAA'')) = []\<close>
proof -
  let ?w = "test_world broken_index_store ''0xAA''"
  note t1 = decode_defaults [where kvs = "[]" and key = "JString ''a''" and env = test_env
      and b = \<open>''{"data":''\<close> and e = SyntaxError and w = ?w]
  note t2 = decode_defaults [where kvs = "[(''status'', JString ''processed'')]"
      and v = "JString ''processed''" and key = "JString ''a''"]
  note t3 = decode_defaults [where kvs = "[(''status'', JString [])]"
      and v = "JString []" and key = "JString ''a''"]
  have c1: "map_sum id status (make_record (JString ''a'') (JObject [])) = Inr (JString ''pending'')"
    and c2: "map_sum id snpCount (make_record (JString ''a'') (JObject [])) = Inr (JNumber (Num 0))"
    using t1 by simp_all
  have c3: "map_sum id status (make_record (JString ''a'') (JObject [(''status'', JString ''processed'')])) =
     Inr (JString ''processed'')"
    using t2 by simp
  have c4: "map_sum id status (make_record (JString ''a'') (JObject [(''status'', JString [])])) =
     Inr (JString ''pending'')"
    using t3 by simp
  have c5: \<open>parse_json test_env ''{"data":'' = Inl SyntaxError\<close> by (rule test_parse_malformed)
  have c6: \<open>fst (load_keys test_env ''{"data":'') = JArray []\<close>
    and c7: \<open>fst (upload_keys test_env ''{"data":'') = JArray []\<close>
    using t1 c5 by blast+
  have c8: "readOnlyContract ?w" and c9: "available ?w" by (simp_all add: test_world_simps)
  have c10: "parse_json test_env (store ?w ''gwas_record_keys'') = Inl SyntaxError"
    using c5 broken_index_simps by (simp add: test_world_simps index_key_def)
  have c11: "records (loadRecords test_env ?w) = []"
    using t1 c8 c9 c10 by blast
  show ?thesis using c1 c2 c3 c4 c5 c6 c7 c8 c9 c10 c11 by (intro conjI)
qed

text \<open>
  C8, as stated, fails on the unknown status: the status \<open>archived\<close> is kept, not
  replaced by \<open>pending\<close>.
\<close>

theorem unknown_status_counterexample:
  "map_sum id status (make_record (JString ''a'') (JObject [(''status'', JString ''archived'')])) =
     Inr (JString ''archived'') \<and>
   JString ''archived'' \<noteq> JString ''pending''"
  by (simp add: make_record_object js_or_def)

section \<open>Create\<close>

text \<open>
  C5, as the code has it. Take a connected wallet, a signer, and an index whose stored
  value is empty, or parses to an array \<open>ks\<close>, or does not parse (\<open>ks\<close> is then empty).
  The id is \<open>gwas-\<close>, the clock in milliseconds, a dash and four characters of the random
  text. \<open>uploadGWASData\<close> first writes under \<open>"gwas_record_" + id\<close> the document with the
  encoded effect size as \<open>data\<close>, the clock in seconds as \<open>timestamp\<close>, the caller as
  \<open>institution\<close>, the phenotype, the status \<open>pending\<close> and the SNP count; then reads
  \<open>"gwas_record_keys"\<close>; then writes there the index it read with the id appended; what
  follows only reads. The store differs at these two keys only, the stored data decodes
  back to the effect size, and the status shown is the success.
\<close>

theorem uploadGWASData_creates:
  assumes "isConnected w" and "signerContract w"
    and "store w ''gwas_record_keys'' = [] \<and> ks = [] \<or>
         store w ''gwas_record_keys'' \<noteq> [] \<and>
           parse_json env (store w ''gwas_record_keys'') = Inr (JArray ks) \<or>
         store w ''gwas_record_keys'' \<noteq> [] \<and> ks = [] \<and>
           (\<exists>e. parse_json env (store w ''gwas_record_keys'') = Inl e)"
  shows "(\<exists>rest.
        calls (uploadGWASData env now_id now_ts rnd w) =
          calls w @
          [SetData (''gwas_record_'' @ (''gwas-'' @ Number_toString env (Num (of_int now_id)) @ ''-'' @ take 4 (drop 2 rnd)))
             (encode_json env
               (JObject
                 [(''data'', JString (FHEEncryptNumber env (new_effectSize (newRecordData w)))),
                  (''timestamp'', JNumber (Num (of_int (now_ts div 1000)))),
                  (''institution'', (case address w of None \<Rightarrow> JUndefined | Some a \<Rightarrow> JString a)),
                  (''phenotype'', JString (new_phenotype (newRecordData w))),
                  (''status'', JString ''pending''),
                  (''snpCount'', JNumber (new_snpCount (newRecordData w)))])),
           GetData ''gwas_record_keys'',
           SetData ''gwas_record_keys''
             (encode_json env (JArray (ks @ [JString (''gwas-'' @ Number_toString env (Num (of_int now_id)) @ ''-'' @ take 4 (drop 2 rnd))])))] @
          rest \<and>
        (\<forall>c \<in> set rest. \<exists>k. c = GetData k))
    \<and> store (uploadGWASData env now_id now_ts rnd w) =
      (store w)
        (''gwas_record_'' @ (''gwas-'' @ Number_toString env (Num (of_int now_id)) @ ''-'' @ take 4 (drop 2 rnd)) :=
           encode_json env
             (JObject
               [(''data'', JString (FHEEncryptNumber env (new_effectSize (newRecordData w)))),
                (''timestamp'', JNumber (Num (of_int (now_ts div 1000)))),
                (''institution'', (case address w of None \<Rightarrow> JUndefined | Some a \<Rightarrow> JString a)),
                (''phenotype'', JString (new_phenotype (newRecordData w))),
                (''status'', JString ''pending''),
                (''snpCount'', JNumber (new_snpCount (newRecordData w)))]),
         ''gwas_record_keys'' :=
           encode_json env (JArray (ks @ [JString (''gwas-'' @ Number_toString env (Num (of_int now_id)) @ ''-'' @ take 4 (drop 2 rnd))])))
    \<and> (parseFloat env (Number_toString env (new_effectSize (newRecordData w))) =
         new_effectSize (newRecordData w) \<longrightarrow>
       FHEDecryptNumber env (FHEEncryptNumber env (new_effectSize (newRecordData w))) =
         Inr (new_effectSize (newRecordData w)))
    \<and> tx_status (transactionStatus (uploadGWASData env now_id now_ts rnd w)) = TxSuccess"
proof -
  have k: "''gwas_record_keys'' = index_key"
    "''gwas_record_'' @ new_record_id env now_id rnd = record_key (new_record_id env now_id rnd)"
    "(''gwas-'' @ Number_toString env (Num (of_int now_id)) @ ''-'' @ take 4 (drop 2 rnd)) = new_record_id env now_id rnd"
    by (simp_all add: index_key_def record_key_def new_record_id_def)
  have d: "(JObject
      [(''data'', JString (FHEEncryptNumber env (new_effectSize (newRecordData w)))),
       (''timestamp'', JNumber (Num (of_int (now_ts div 1000)))),
       (''institution'', (case address w of None \<Rightarrow> JUndefined | Some a \<Rightarrow> JString a)),
       (''phenotype'', JString (new_phenotype (newRecordData w))),
       (''status'', JString ''pending''),
       (''snpCount'', JNumber (new_snpCount (newRecordData w)))]) =
      new_record env w now_ts"
    by (simp add: new_record_def)
  obtain lg where u: "upload_keys env (store w index_key) = (JArray ks, lg)"
    using upload_keys_cases [OF assms(3)] unfolding k by blast
  have c1: "\<exists>rest. calls (uploadGWASData env now_id now_ts rnd w) =
      calls w @
      [SetData (record_key (new_record_id env now_id rnd)) (encode_json env (new_record env w now_ts)),
       GetData index_key,
       SetData index_key (encode_json env (JArray (ks @ [JString (new_record_id env now_id rnd)])))]
      @ rest \<and> (\<forall>c \<in> set rest. \<exists>k. c = GetData k)"
    by (rule upload_calls_reads [OF assms(1,2) u])
  have c2: "store (uploadGWASData env now_id now_ts rnd w) =
      (store w)(record_key (new_record_id env now_id rnd) := encode_json env (new_record env w now_ts),
                index_key := encode_json env (JArray (ks @ [JString (new_record_id env now_id rnd)])))"
    by (rule upload_store(1) [OF assms(1,2) u])
  have c3: "parseFloat env (Number_toString env (new_effectSize (newRecordData w))) =
         new_effectSize (newRecordData w) \<longrightarrow>
       FHEDecryptNumber env (FHEEncryptNumber env (new_effectSize (newRecordData w))) =
         Inr (new_effectSize (newRecordData w))"
    using decrypt_encrypt by blast
  have c4: "tx_status (transactionStatus (uploadGWASData env now_id now_ts rnd w)) = TxSuccess"
    by (rule upload_store(2) [OF assms(1,2) u])
  show ?thesis unfolding k d using c1 c2 c3 c4 by (intro conjI)
qed

theorem uploadGWASData_creates_witness:
  "isConnected (test_world test_store ''0xAA'') \<and>
   signerContract (test_world test_store ''0xAA'') \<and>
   store (test_world test_store ''0xAA'') ''gwas_record_keys'' \<noteq> [] \<and>
   parse_json test_env (store (test_world test_store ''0xAA'') ''gwas_record_keys'') =
     Inr (JArray [JString ''a'', JString ''b'', JString ''c'', JString ''m'', JString ''x'']) \<and>
   new_effectSize (newRecordData (test_world test_store ''0xAA'')) = Num 0 \<and>
   (\<exists>rest.
      calls (uploadGWASData test_env 1700000000000 1700000000999 ''0.k3j2h1''
       (test_world test_store ''0xAA'')) =
        [SetData ''gwas_record_gwas-1700000000000-k3j2'' doc_new_text,
         GetData ''gwas_record_keys'',
         SetData ''gwas_record_keys'' index_appended_text] @ rest \<and>
      (\<forall>c \<in> set rest. \<exists>k. c = GetData k)) \<and>
   store (uploadGWASData test_env 1700000000000 1700000000999 ''0.k3j2h1''
       (test_world test_store ''0xAA'')) =
     (store (test_world test_store ''0xAA''))
       (''gwas_record_gwas-1700000000000-k3j2'' := doc_new_text,
        ''gwas_record_keys'' := index_appended_text) \<and>
   FHEDecryptNumber test_env (FHEEncryptNumber test_env (Num 0)) = Inr (Num 0) \<and>
   tx_status (transactionStatus (uploadGWASData test_env 1700000000000 1700000000999 ''0.k3j2h1''
       (test_world test_store ''0xAA''))) = TxSuccess"
proof -
  let ?w = "test_world test_store ''0xAA''"
  let ?u = "uploadGWASData test_env 1700000000000 1700000000999 ''0.k3j2h1'' ?w"
  let ?ks = "[JString ''a'', JString ''b'', JString ''c'', JString ''m'', JString ''x'']"
  have a1: "isConnected ?w" and a2: "signerContract ?w" by (simp_all add: test_world_simps)
  have s: "store ?w ''gwas_record_keys'' = index_text"
    by (simp add: test_world_simps test_store_def)
  have b1: "store ?w ''gwas_record_keys'' \<noteq> []" unfolding s by (rule test_texts_nonempty(5))
  have b2: "parse_json test_env (store ?w ''gwas_record_keys'') = Inr (JArray ?ks)"
    unfolding s using test_parse(5) by (simp add: index_value_def)
  have a3: "store ?w ''gwas_record_keys'' = [] \<and> ?ks = [] \<or>
         store ?w ''gwas_record_keys'' \<noteq> [] \<and>
           parse_json test_env (store ?w ''gwas_record_keys'') = Inr (JArray ?ks) \<or>
         store ?w ''gwas_record_keys'' \<noteq> [] \<and> ?ks = [] \<and>
           (\<exists>e. parse_json test_env (store ?w ''gwas_record_keys'') = Inl e)"
    using b1 b2 by blast
  have a4: "new_effectSize (newRecordData ?w) = Num 0" by (simp add: test_world_simps)
  have r: "parseFloat test_env (Number_toString test_env (new_effectSize (newRecordData ?w))) =
      new_effectSize (newRecordData ?w)"
    by (simp add: a4 test_env_simps test_toString_def test_parseFloat_def exp_minus_one_neq)
  have i: "''gwas-'' @ Number_toString test_env (Num (of_int 1700000000000)) @ ''-'' @
      take 4 (drop 2 ''0.k3j2h1'') = ''gwas-1700000000000-k3j2''"
    using test_new_record_id by (simp add: new_record_id_def)
  have v: "encode_json test_env
      (JObject
        [(''data'', JString (FHEEncryptNumber test_env (new_effectSize (newRecordData ?w)))),
         (''timestamp'', JNumber (Num (of_int (1700000000999 div 1000)))),
         (''institution'', (case address ?w of None \<Rightarrow> JUndefined | Some a \<Rightarrow> JString a)),
         (''phenotype'', JString (new_phenotype (newRecordData ?w))),
         (''status'', JString ''pending''),
         (''snpCount'', JNumber (new_snpCount (newRecordData ?w)))]) = doc_new_text"
    using test_encode(2) by (simp add: test_world_simps test_encrypt doc_new_value_def)
  have x: "encode_json test_env (JArray (?ks @ [JString ''gwas-1700000000000-k3j2''])) =
      index_appended_text"
    using test_encode(4) by (simp add: index_appended_value_def)
  note t = uploadGWASData_creates [OF a1 a2 a3, of 1700000000000 1700000000999 "''0.k3j2h1''",
      unfolded i v x]
  have c1: "\<exists>rest.
      calls ?u =
        [SetData ''gwas_record_gwas-1700000000000-k3j2'' doc_new_text,
         GetData ''gwas_record_keys'',
         SetData ''gwas_record_keys'' index_appended_text] @ rest \<and>
      (\<forall>c \<in> set rest. \<exists>k. c = GetData k)"
    using t by (simp add: test_world_simps)
  have c2: "store ?u =
     (store ?w)
       (''gwas_record_gwas-1700000000000-k3j2'' := doc_new_text,
        ''gwas_record_keys'' := index_appended_text)"
    using t by simp
  have c3: "FHEDecryptNumber test_env (FHEEncryptNumber test_env (Num 0)) = Inr (Num 0)"
    using t r unfolding a4 by blast
  have c4: "tx_status (transactionStatus ?u) = TxSuccess" using t by blast
  show ?thesis using a1 a2 b1 b2 a4 c1 c2 c3 c4 by (intro conjI)
qed

text \<open>
  C5, as stated, fails when the stored index parses to a value that is no array, here the
  object \<open>{}\<close>: the document is written, the append throws, the index is not written
  back and the status shown is the error.
\<close>

theorem uploadGWASData_creates_counterexample:
  "isConnected (test_world object_index_store ''0xAA'') \<and>
   signerContract (test_world object_index_store ''0xAA'') \<and>
   parse_json test_env (store (test_world object_index_store ''0xAA'') ''gwas_record_keys'') =
     Inr (JObject []) \<and>
   store (uploadGWASData test_env 1700000000000 1700000000999 ''0.k3j2h1''
       (test_world object_index_store ''0xAA''))
     ''gwas_record_gwas-1700000000000-k3j2'' = doc_new_text \<and>
   store (uploadGWASData test_env 1700000000000 1700000000999 ''0.k3j2h1''
       (test_world object_index_store ''0xAA''))
     ''gwas_record_keys'' = store (test_world object_index_store ''0xAA'') ''gwas_record_keys'' \<and>
   calls (uploadGWASData test_env 1700000000000 1700000000999 ''0.k3j2h1''
       (test_world object_index_store ''0xAA'')) =
     [SetData ''gwas_record_gwas-1700000000000-k3j2'' doc_new_text,
      GetData ''gwas_record_keys''] \<and>
   transactionStatus (uploadGWASData test_env 1700000000000 1700000000999 ''0.k3j2h1''
       (test_world object_index_store ''0xAA'')) =
     \<lparr>visible = True, tx_status = TxError, message = Failure ''Submission failed: '' TypeError\<rparr>"
proof -
  let ?w = "test_world object_index_store ''0xAA''"
  let ?u = "uploadGWASData test_env 1700000000000 1700000000999 ''0.k3j2h1'' ?w"
  have a1: "isConnected ?w" and a2: "signerContract ?w" by (simp_all add: test_world_simps)
  have s: "store ?w index_key = index_object_text"
    by (simp add: test_world_simps object_index_store_def index_key_def)
  have p: "parse_json test_env (store ?w index_key) = Inr (JObject [])"
    unfolding s using test_parse(10) by (simp add: index_object_value_def)
  have u: "upload_keys test_env (store ?w index_key) = (JObject [], [])"
    using p s test_texts_nonempty(10) by (simp add: upload_keys_def)
  have j: "js_push (JObject []) (JString (new_record_id test_env 1700000000000 ''0.k3j2h1'')) =
      Inl TypeError"
    by simp
  note f = upload_push_failed [OF a1 a2 u j, of 1700000000999]
  have n: "new_record test_env ?w 1700000000999 = doc_new_value"
    by (rule test_new_record) (simp_all add: test_world_simps)
  have c1: "store ?u (record_key ''gwas-1700000000000-k3j2'') = doc_new_text"
    unfolding f(1) n test_new_record_id by (simp add: test_encode)
  have c2: "store ?u index_key = store ?w index_key"
    unfolding f(1) test_new_record_id using test_keys_distinct(1) by auto
  have c3: "calls ?u = [SetData (record_key ''gwas-1700000000000-k3j2'') doc_new_text,
      GetData index_key]"
    unfolding f(3) n test_new_record_id by (simp add: test_encode test_world_simps)
  show ?thesis unfolding key_texts using a1 a2 p c1 c2 c3 f(2) by (intro conjI)
qed

text \<open>
  C10: when the index is not empty and does not parse, \<open>uploadGWASData\<close> writes back an
  index holding the new id only.
\<close>

theorem uploadGWASData_unparsable_index:
  assumes "isConnected w" and "signerContract w"
    and "store w ''gwas_record_keys'' \<noteq> []"
    and "parse_json env (store w ''gwas_record_keys'') = Inl e"
  shows "store (uploadGWASData env now_id now_ts rnd w) ''gwas_record_keys'' =
      encode_json env (JArray [JString (new_record_id env now_id rnd)])"
proof -
  have "upload_keys env (store w index_key) = (JArray [], [ConsoleError ''Error parsing keys:'' e])"
    using assms(3,4) by (simp add: upload_keys_def index_key_def)
  from upload_store(1) [OF assms(1,2) this, of now_id now_ts rnd]
  show ?thesis by (simp add: index_key_def)
qed

theorem uploadGWASData_unparsable_index_witness:
  "isConnected (test_world broken_index_store ''0xAA'') \<and>
   signerContract (test_world broken_index_store ''0xAA'') \<and>
   store (test_world broken_index_store ''0xAA'') ''gwas_record_keys'' \<noteq> [] \<and>
   parse_json test_env (store (test_world broken_index_store ''0xAA'') ''gwas_record_keys'') =
     Inl SyntaxError \<and>
   store (uploadGWASData test_env 1700000000000 1700000000999 ''0.k3j2h1''
      (test_world broken_index_store ''0xAA'')) ''gwas_record_keys'' = index_new_text"
proof -
  let ?w = "test_world broken_index_store ''0xAA''"
  have a1: "isConnected ?w" and a2: "signerContract ?w" by (simp_all add: test_world_simps)
  have a3: "store ?w ''gwas_record_keys'' \<noteq> []"
    using broken_index_simps by (simp add: test_world_simps index_key_def)
  have a4: "parse_json test_env (store ?w ''gwas_record_keys'') = Inl SyntaxError"
    using test_parse_malformed broken_index_simps by (simp add: test_world_simps index_key_def)
  have i: "encode_json test_env (JArray [JString ''gwas-1700000000000-k3j2'']) = index_new_text"
    using test_encode(3) by (simp add: index_new_value_def)
  have c: "store (uploadGWASData test_env 1700000000000 1700000000999 ''0.k3j2h1'' ?w)
      ''gwas_record_keys'' = index_new_text"
    using uploadGWASData_unparsable_index [OF a1 a2 a3 a4, of 1700000000000 1700000000999 "''0.k3j2h1''"]
    by (simp add: test_new_record_id i)
  show ?thesis using a1 a2 a3 a4 c by (intro conjI)
qed

section \<open>Process\<close>

text \<open>
  C1, as the code has it: with a connected wallet and a contract, \<open>processGWAS\<close> on an id
  whose document is empty reports \<open>Record not found\<close> and leaves the store as it was; no
  failure changes the store; the caller's address has no part in the outcome, since
  \<open>processGWAS\<close> makes no ownership check (the view alone offers the action to the
  owner); and a record whose status is already \<open>processed\<close> is not rejected: its data is
  derived once more and written back.
\<close>

theorem processGWAS_contract:
  assumes "isConnected w" and "readOnlyContract w"
  shows "(store w (''gwas_record_'' @ rid) = [] \<longrightarrow>
       transactionStatus (processGWAS env w rid) =
         \<lparr>visible = True, tx_status = TxError,
          message = Failure ''Processing failed: '' (Error ''Record not found'')\<rparr> \<and>
       store (processGWAS env w rid) = store w)
    \<and> (tx_status (transactionStatus (processGWAS env w rid)) = TxError \<longrightarrow>
       store (processGWAS env w rid) = store w)
    \<and> store (processGWAS env (w\<lparr>address := a\<rparr>) rid) = store (processGWAS env w rid)
    \<and> transactionStatus (processGWAS env (w\<lparr>address := a\<rparr>) rid) =
       transactionStatus (processGWAS env w rid)
    \<and> (signerContract w \<and> store w (''gwas_record_'' @ rid) \<noteq> [] \<and>
       parse_json env (store w (''gwas_record_'' @ rid)) = Inr (JObject kvs) \<and>
       map_of kvs ''status'' = Some (JString ''processed'') \<and>
       map_of kvs ''data'' = Some (JString d) \<and>
       FHEComputeGWAS env d = Inr d' \<longrightarrow>
       tx_status (transactionStatus (processGWAS env w rid)) = TxSuccess \<and>
       store (processGWAS env w rid) (''gwas_record_'' @ rid) =
         encode_json env
           (JObject (obj_set ''data'' (JString d') (obj_set ''status'' (JString ''processed'') kvs))))"
proof -
  have k: "''gwas_record_'' @ rid = record_key rid" by (simp add: record_key_def)
  have c1: "store w (record_key rid) = [] \<longrightarrow>
       transactionStatus (processGWAS env w rid) =
         \<lparr>visible = True, tx_status = TxError,
          message = Failure ''Processing failed: '' (Error ''Record not found'')\<rparr> \<and>
       store (processGWAS env w rid) = store w"
    using processGWAS_not_found [OF assms] by blast
  have c2: "tx_status (transactionStatus (processGWAS env w rid)) = TxError \<longrightarrow>
       store (processGWAS env w rid) = store w"
    using processGWAS_failure_store [of env w rid] by simp
  have c3: "store (processGWAS env (w\<lparr>address := a\<rparr>) rid) = store (processGWAS env w rid)"
    and c4: "transactionStatus (processGWAS env (w\<lparr>address := a\<rparr>) rid) =
       transactionStatus (processGWAS env w rid)"
    by (simp_all add: processGWAS_address)
  have c5: "signerContract w \<and> store w (record_key rid) \<noteq> [] \<and>
       parse_json env (store w (record_key rid)) = Inr (JObject kvs) \<and>
       map_of kvs ''status'' = Some (JString ''processed'') \<and>
       map_of kvs ''data'' = Some (JString d) \<and>
       FHEComputeGWAS env d = Inr d' \<longrightarrow>
       tx_status (transactionStatus (processGWAS env w rid)) = TxSuccess \<and>
       store (processGWAS env w rid) (record_key rid) =
         encode_json env
           (JObject (obj_set ''data'' (JString d') (obj_set ''status'' (JString ''processed'') kvs)))"
    using processGWAS_ok [OF assms, of rid env kvs d d'] by simp
  show ?thesis unfolding k using c1 c2 c3 c4 c5 by (intro conjI)
qed

theorem processGWAS_contract_witness:
  "isConnected (test_world test_store ''0xBB'') \<and>
   readOnlyContract (test_world test_store ''0xBB'') \<and>
   store (test_world test_store ''0xBB'') (''gwas_record_'' @ ''zzz'') = [] \<and>
   transactionStatus (processGWAS test_env (test_world test_store ''0xBB'') ''zzz'') =
     \<lparr>visible = True, tx_status = TxError,
      message = Failure ''Processing failed: '' (Error ''Record not found'')\<rparr> \<and>
   store (processGWAS test_env (test_world test_store ''0xBB'') ''zzz'') =
     store (test_world test_store ''0xBB'') \<and>
   store (processGWAS test_env ((test_world test_store ''0xBB'')\<lparr>address := Some ''0xAA''\<rparr>) ''a'') =
     store (processGWAS test_env (test_world test_store ''0xBB'') ''a'') \<and>
   parse_json test_env (store (test_world processed_store ''0xAA'') (''gwas_record_'' @ ''a'')) =
     Inr doc_processed_value \<and>
   get_prop doc_processed_value ''status'' = Inr (JString ''processed'') \<and>
   tx_status (transactionStatus (processGWAS test_env (test_world processed_store ''0xAA'') ''a''))
     = TxSuccess \<and>
   store (processGWAS test_env (test_world processed_store ''0xAA'') ''a'') (''gwas_record_'' @ ''a'') =
     encode_json test_env
       (JObject
         (obj_set ''data''
           (JString (FHEEncryptNumber test_env (Math_exp (js_times (js_neg (Num (exp (- 1)))) (Num (1 / 10))))))
           (obj_set ''status'' (JString ''processed'')
             [(''data'', JString ''FHE-MC4zNjc4Nzk0NDExNzE0NDIzMw==''),
              (''timestamp'', JNumber (Num 100)), (''institution'', JString ''0xAA''),
              (''phenotype'', JString ''height''), (''status'', JString ''processed''),
              (''snpCount'', JNumber (Num 5))])))"
proof -
  let ?w = "test_world test_store ''0xBB''"
  let ?p = "test_world processed_store ''0xAA''"
  let ?kvs = "[(''data'', JString ''FHE-MC4zNjc4Nzk0NDExNzE0NDIzMw==''),
              (''timestamp'', JNumber (Num 100)), (''institution'', JString ''0xAA''),
              (''phenotype'', JString ''height''), (''status'', JString ''processed''),
              (''snpCount'', JNumber (Num 5))]"
  let ?d' = "FHEEncryptNumber test_env (Math_exp (js_times (js_neg (Num (exp (- 1)))) (Num (1 / 10))))"
  have k: "''gwas_record_'' @ ''zzz'' = record_key ''zzz''" "''gwas_record_'' @ ''a'' = record_key ''a''"
    by (simp_all add: record_key_def)
  have a1: "isConnected ?w" and a2: "readOnlyContract ?w"
    by (simp_all add: test_world_simps)
  have a3: "store ?w (record_key ''zzz'') = []"
    by (simp add: test_world_simps test_store_simps)
  have b1: "isConnected ?p" and b2: "readOnlyContract ?p" and b3: "signerContract ?p"
    by (simp_all add: test_world_simps)
  have b4: "store ?p (record_key ''a'') \<noteq> []"
    by (simp add: test_world_simps processed_store_simps test_texts_nonempty)
  have b5: "parse_json test_env (store ?p (record_key ''a'')) = Inr (JObject ?kvs)"
    using test_parse(2) by (simp add: test_world_simps processed_store_simps doc_processed_value_def)
  have b6: "map_of ?kvs ''status'' = Some (JString ''processed'')"
    and b7: "map_of ?kvs ''data'' = Some (JString ''FHE-MC4zNjc4Nzk0NDExNzE0NDIzMw=='')"
    by simp_all
  have b8: "FHEComputeGWAS test_env ''FHE-MC4zNjc4Nzk0NDExNzE0NDIzMw=='' = Inr ?d'"
    by (simp add: FHEComputeGWAS_def test_decrypt)
  note t1 = processGWAS_contract [OF a1 a2, of "''zzz''" test_env "Some ''0xAA''"]
  note t2 = processGWAS_contract [OF a1 a2, of "''a''" test_env "Some ''0xAA''"]
  note t3 = processGWAS_contract [OF b1 b2, of "''a''" test_env "Some ''0xAA''" ?kvs
      "''FHE-MC4zNjc4Nzk0NDExNzE0NDIzMw==''" ?d']
  have c1: "transactionStatus (processGWAS test_env ?w ''zzz'') =
     \<lparr>visible = True, tx_status = TxError,
      message = Failure ''Processing failed: '' (Error ''Record not found'')\<rparr>"
    and c2: "store (processGWAS test_env ?w ''zzz'') = store ?w"
    using t1 a3 unfolding k by blast+
  have c3: "store (processGWAS test_env (?w\<lparr>address := Some ''0xAA''\<rparr>) ''a'') =
     store (processGWAS test_env ?w ''a'')"
    using t2 by blast
  have c4: "parse_json test_env (store ?p (record_key ''a'')) = Inr doc_processed_value"
    using b5 by (simp add: doc_processed_value_def)
  have c5: "get_prop doc_processed_value ''status'' = Inr (JString ''processed'')"
    by (simp add: doc_processed_value_def)
  have c6: "tx_status (transactionStatus (processGWAS test_env ?p ''a'')) = TxSuccess"
    and c7: "store (processGWAS test_env ?p ''a'') (record_key ''a'') =
     encode_json test_env
       (JObject (obj_set ''data'' (JString ?d') (obj_set ''status'' (JString ''processed'') ?kvs)))"
    using t3 b3 b4 b5 b6 b7 b8 unfolding k by blast+
  show ?thesis unfolding k using a1 a2 a3 c1 c2 c3 c4 c5 c6 c7 by (intro conjI)
qed

text \<open>
  C1, as stated, fails: the record \<open>a\<close> belongs to the institution \<open>0xAA\<close>, the caller
  is \<open>0xBB\<close>, and \<open>processGWAS\<close> succeeds and replaces the stored document.
\<close>

theorem processGWAS_non_owner_counterexample:
  "get_prop doc_pending_value ''institution'' = Inr (JString ''0xAA'') \<and>
   \<not> isOwner (test_world test_store ''0xBB'') ''0xAA'' \<and>
   parse_json test_env (store (test_world test_store ''0xBB'') (''gwas_record_'' @ ''a''))
     = Inr doc_pending_value \<and>
   tx_status (transactionStatus (processGWAS test_env (test_world test_store ''0xBB'') ''a''))
     = TxSuccess \<and>
   store (processGWAS test_env (test_world test_store ''0xBB'') ''a'') (''gwas_record_'' @ ''a'')
     = doc_processed_text \<and>
   doc_processed_text \<noteq> store (test_world test_store ''0xBB'') (''gwas_record_'' @ ''a'')"
proof -
  have k: "''gwas_record_'' @ ''a'' = record_key ''a''" by (simp add: record_key_def)
  have c1: "get_prop doc_pending_value ''institution'' = Inr (JString ''0xAA'')"
    by (simp add: doc_pending_value_def)
  have c2: "\<not> isOwner (test_world test_store ''0xBB'') ''0xAA''"
    by (simp add: isOwner_def test_world_simps toLowerCase_def char_of_def bit_0)
  have c3: "parse_json test_env (store (test_world test_store ''0xBB'') (record_key ''a''))
     = Inr doc_pending_value"
    by (simp add: test_world_simps test_store_simps test_parse)
  have "isConnected (test_world test_store ''0xBB'')" "readOnlyContract (test_world test_store ''0xBB'')"
    "signerContract (test_world test_store ''0xBB'')" "store (test_world test_store ''0xBB'') = test_store"
    by (simp_all add: test_world_simps)
  note p = test_process_store [OF this]
  have c4: "tx_status (transactionStatus (processGWAS test_env (test_world test_store ''0xBB'') ''a''))
     = TxSuccess"
    by (rule p(1))
  have c5: "store (processGWAS test_env (test_world test_store ''0xBB'') ''a'') (record_key ''a'')
     = doc_processed_text"
    unfolding p(2) by simp
  have c6: "doc_processed_text \<noteq> store (test_world test_store ''0xBB'') (record_key ''a'')"
    by (simp add: test_world_simps test_store_simps test_texts_nonempty)
  show ?thesis unfolding k using c1 c2 c3 c4 c5 c6 by (intro conjI)
qed



section \<open>An unavailable store\<close>

text \<open>
  C6 at a concrete input: with \<open>isAvailable()\<close> false, \<open>loadRecords\<close> does nothing, but
  \<open>uploadGWASData\<close> writes the document and the index and reports success, and
  \<open>processGWAS\<close> replaces the document and reports success.
\<close>

theorem writes_while_unavailable:
  "\<not> available ((test_world (\<lambda>k. []) ''0xAA'')\<lparr>available := False\<rparr>) \<and>
   loadRecords test_env ((test_world (\<lambda>k. []) ''0xAA'')\<lparr>available := False\<rparr>) =
     (test_world (\<lambda>k. []) ''0xAA'')\<lparr>available := False\<rparr> \<and>
   store (uploadGWASData test_env 1700000000000 1700000000999 ''0.k3j2h1''
       ((test_world (\<lambda>k. []) ''0xAA'')\<lparr>available := False\<rparr>))
     ''gwas_record_gwas-1700000000000-k3j2'' = doc_new_text \<and>
   store (uploadGWASData test_env 1700000000000 1700000000999 ''0.k3j2h1''
       ((test_world (\<lambda>k. []) ''0xAA'')\<lparr>available := False\<rparr>))
     ''gwas_record_keys'' = index_new_text \<and>
   tx_status (transactionStatus (uploadGWASData test_env 1700000000000 1700000000999 ''0.k3j2h1''
       ((test_world (\<lambda>k. []) ''0xAA'')\<lparr>available := False\<rparr>))) = TxSuccess \<and>
   store ((test_world test_store ''0xAA'')\<lparr>available := False\<rparr>) ''gwas_record_a'' =
     doc_pending_text \<and>
   store (processGWAS test_env ((test_world test_store ''0xAA'')\<lparr>available := False\<rparr>) ''a'')
     ''gwas_record_a'' = doc_processed_text \<and>
   tx_status (transactionStatus
     (processGWAS test_env ((test_world test_store ''0xAA'')\<lparr>available := False\<rparr>) ''a'')) = TxSuccess"
proof -
  let ?w = "(test_world (\<lambda>k. []) ''0xAA'')\<lparr>available := False\<rparr>"
  let ?p = "(test_world test_store ''0xAA'')\<lparr>available := False\<rparr>"
  have c1: "\<not> available ?w" by simp
  have c2: "loadRecords test_env ?w = ?w" by (simp add: loadRecords_def)
  have u: "upload_keys test_env (store ?w index_key) = (JArray [], [])"
    by (simp add: test_world_simps upload_keys_def)
  have n: "newRecordData ?w = \<lparr>new_phenotype = ''height'', new_description = [],
      new_snpCount = Num 5, new_effectSize = Num 0\<rparr>"
    by (simp add: test_world_simps)
  have "isConnected ?w" "signerContract ?w" "address ?w = Some ''0xAA''"
    by (simp_all add: test_world_simps)
  note s = test_upload_store [OF this n u]
  have c3: "store (uploadGWASData test_env 1700000000000 1700000000999 ''0.k3j2h1'' ?w)
     (record_key ''gwas-1700000000000-k3j2'') = doc_new_text"
    and c4: "store (uploadGWASData test_env 1700000000000 1700000000999 ''0.k3j2h1'' ?w)
     index_key = index_new_text"
    unfolding s(1) by (simp_all add: test_keys_distinct)
  have "isConnected ?p" "readOnlyContract ?p" "signerContract ?p" "store ?p = test_store"
    by (simp_all add: test_world_simps)
  note p = test_process_store [OF this]
  have c5: "store ?p (record_key ''a'') = doc_pending_text"
    by (simp add: test_world_simps test_store_simps)
  have c6: "store (processGWAS test_env ?p ''a'') (record_key ''a'') = doc_processed_text"
    unfolding p(2) by simp
  show ?thesis unfolding key_texts using c1 c2 c3 c4 s(2) c5 c6 p(1) by (intro conjI)
qed

section \<open>Reachable states\<close>

text \<open>
  C9: in every state reached from an empty store by listing, creating and processing,
  each stored value is empty, an index, or a document whose status is \<open>pending\<close> or
  \<open>processed\<close>: no operation writes the status \<open>error\<close>. So a stored document that
  the codec decodes to what was encoded never shows the status \<open>error\<close>.
\<close>

theorem reachable_status:
  assumes "reachable env w"
  shows "written_by_app env (store w k)
    \<and> (store w k \<noteq> [] \<and> parse_json env (store w k) = Inr (JObject kvs) \<and>
       (\<forall>v. store w k = encode_json env v \<longrightarrow> parse_json env (encode_json env v) = Inr v) \<longrightarrow>
       map_of kvs ''status'' \<noteq> Some (JString ''error'') \<and>
       (map_of kvs ''status'' = Some (JString ''pending'') \<or>
        map_of kvs ''status'' = Some (JString ''processed'')))"
proof (intro conjI impI)
  have inv: "written_by_app env (store w k)" for k
    using assms
  proof (induction arbitrary: k rule: reachable.induct)
    case (reach_init w)
    then show ?case by (simp add: written_by_app_def)
  next
    case (reach_load w)
    then show ?case by (simp add: store_loadRecords)
  next
    case (reach_upload w now_id now_ts rnd)
    then show ?case
      using upload_store_cases [of env now_id now_ts rnd w k]
      by (auto simp add: written_array written_new_record)
  next
    case (reach_process w rid)
    from processGWAS_store_cases [of env w rid] show ?case
    proof
      assume "store (processGWAS env w rid) = store w"
      then show ?thesis using reach_process.IH by simp
    next
      assume "\<exists>kvs x. store (processGWAS env w rid) =
        (store w)(record_key rid := encode_json env
           (JObject (obj_set ''data'' x (obj_set ''status'' (JString ''processed'') kvs))))"
      then show ?thesis using reach_process.IH [of k] by (auto simp add: written_updated)
    qed
  next
    case (reach_view w w')
    then show ?case by simp
  qed
  show "written_by_app env (store w k)" by (rule inv)
  assume h: "store w k \<noteq> [] \<and> parse_json env (store w k) = Inr (JObject kvs) \<and>
       (\<forall>v. store w k = encode_json env v \<longrightarrow> parse_json env (encode_json env v) = Inr v)"
  then have s: "map_of kvs ''status'' = Some (JString ''pending'') \<or>
         map_of kvs ''status'' = Some (JString ''processed'')"
    using decoded_status [OF inv [of k], of kvs] by blast
  then show "map_of kvs ''status'' \<noteq> Some (JString ''error'')" by auto
  from s show "map_of kvs ''status'' = Some (JString ''pending'') \<or>
         map_of kvs ''status'' = Some (JString ''processed'')" .
qed

theorem reachable_status_witness:
  "reachable test_env (uploadGWASData test_env 1700000000000 1700000000999 ''0.k3j2h1''
      (test_world (\<lambda>k. []) ''0xAA'')) \<and>
   store (uploadGWASData test_env 1700000000000 1700000000999 ''0.k3j2h1''
      (test_world (\<lambda>k. []) ''0xAA'')) ''gwas_record_gwas-1700000000000-k3j2'' = doc_new_text \<and>
   written_by_app test_env doc_new_text \<and>
   parse_json test_env doc_new_text = Inr doc_new_value \<and>
   get_prop doc_new_value ''status'' \<noteq> Inr (JString ''error'')"
proof -
  let ?w = "test_world (\<lambda>k. []) ''0xAA''"
  let ?u = "uploadGWASData test_env 1700000000000 1700000000999 ''0.k3j2h1'' ?w"
  let ?kvs = "[(''data'', JString ''FHE-MA==''), (''timestamp'', JNumber (Num 1700000000)),
      (''institution'', JString ''0xAA''), (''phenotype'', JString ''height''),
      (''status'', JString ''pending''), (''snpCount'', JNumber (Num 5))]"
  have "reachable test_env ?w" by (rule reach_init) (simp add: test_world_simps)
  then have r: "reachable test_env ?u" by (rule reach_upload)
  have u: "upload_keys test_env (store ?w index_key) = (JArray [], [])"
    by (simp add: test_world_simps upload_keys_def)
  have "isConnected ?w" "signerContract ?w" "address ?w = Some ''0xAA''"
    by (simp_all add: test_world_simps)
  note s = test_upload_store [OF this test_world_simps(8) u]
  have c: "store ?u (record_key ''gwas-1700000000000-k3j2'') = doc_new_text"
    unfolding s(1) by (simp add: test_keys_distinct)
  note t = reachable_status [OF r, of "record_key ''gwas-1700000000000-k3j2''" ?kvs]
  have w: "written_by_app test_env doc_new_text" using t unfolding c by blast
  have p: "parse_json test_env doc_new_text = Inr doc_new_value" by (rule test_parse(6))
  have p': "parse_json test_env doc_new_text = Inr (JObject ?kvs)"
    using p by (simp add: doc_new_value_def)
  have n: "doc_new_text \<noteq> []" by (simp add: doc_new_text_def)
  have "map_of ?kvs ''status'' \<noteq> Some (JString ''error'')"
    using t p' n test_codec_new unfolding c by blast
  then have e: "get_prop doc_new_value ''status'' \<noteq> Inr (JString ''error'')"
    by (simp add: doc_new_value_def)
  show ?thesis unfolding key_texts using r c w p e by (intro conjI)
qed

end
